theory Spec2Isabelle
  imports Complex_Main
begin

section \<open>JavaScript values of the lead attributes\<close>

text \<open>
  A nullable column of a Sequelize instance holds \<open>undefined\<close> (the attribute was never
  set), \<open>null\<close>, or a value of the column's type. The code compares such attributes with
  numbers and tests them for truthiness, and JavaScript treats \<open>undefined\<close> and \<open>null\<close>
  differently there (\<open>null <= 25\<close> is true, \<open>undefined <= 25\<close> is false), so both are
  kept. Numeric attributes (INTEGER and DECIMAL columns) are modelled as rational numbers.
\<close>

datatype 'a nullable = Undefined | Null | Val 'a

text \<open>\<open>ToNumber\<close> of a numeric attribute: \<open>None\<close> is NaN.\<close>

fun toNumber :: "rat nullable \<Rightarrow> rat option" where
  "toNumber Undefined = None"
| "toNumber Null = Some 0"
| "toNumber (Val r) = Some r"

text \<open>The relational operators: a comparison with NaN is false.\<close>

definition js_ge :: "rat option \<Rightarrow> rat option \<Rightarrow> bool" where
  "js_ge a b = (case (a, b) of (Some x, Some y) \<Rightarrow> x \<ge> y | _ \<Rightarrow> False)"

definition js_le :: "rat option \<Rightarrow> rat option \<Rightarrow> bool" where
  "js_le a b = (case (a, b) of (Some x, Some y) \<Rightarrow> x \<le> y | _ \<Rightarrow> False)"

definition js_gt :: "rat option \<Rightarrow> rat option \<Rightarrow> bool" where
  "js_gt a b = (case (a, b) of (Some x, Some y) \<Rightarrow> x > y | _ \<Rightarrow> False)"

text \<open>Strict equality of two numbers: NaN equals nothing.\<close>

definition js_strict_eq :: "rat option \<Rightarrow> rat option \<Rightarrow> bool" where
  "js_strict_eq a b = (case (a, b) of (Some x, Some y) \<Rightarrow> x = y | _ \<Rightarrow> False)"

text \<open>Truthiness: \<open>undefined\<close>, \<open>null\<close>, \<open>0\<close> and the empty string are falsy.\<close>

fun truthy_num :: "rat nullable \<Rightarrow> bool" where
  "truthy_num (Val r) = (r \<noteq> 0)"
| "truthy_num _ = False"

fun truthy_str :: "string nullable \<Rightarrow> bool" where
  "truthy_str (Val s) = (s \<noteq> [])"
| "truthy_str _ = False"

text \<open>\<open>v || d\<close> on a numeric attribute: the attribute when truthy, else the default.\<close>

definition num_or :: "rat nullable \<Rightarrow> rat \<Rightarrow> rat" where
  "num_or v d = (case v of Val r \<Rightarrow> (if r \<noteq> 0 then r else d) | _ \<Rightarrow> d)"

text \<open>The property key that a string attribute selects in \<open>mappings[value]\<close>.\<close>

fun key_of :: "string nullable \<Rightarrow> string" where
  "key_of Undefined = ''undefined''"
| "key_of Null = ''null''"
| "key_of (Val s) = s"

section \<open>The Lead model\<close>

text \<open>
  The attributes of \<open>Lead\<close> that the scoring, priority, escalation and deduplication code
  reads or writes. Times are milliseconds since the epoch, as \<open>Date.now()\<close> gives them.
\<close>

record lead =
  lead_id :: nat
  company_name :: "string nullable"
  email :: "string nullable"
  phone :: "string nullable"
  website :: "string nullable"
  service_type :: string
  service_date :: "int option"
  pickup_location :: "string nullable"
  destination :: "string nullable"
  passenger_count :: "rat nullable"
  estimated_value :: "rat nullable"
  budget_tier :: "string nullable"
  company_size_estimate :: "rat nullable"
  lead_score :: int
  status :: string
  priority_level :: int
  distance_from_base :: "rat nullable"
  converted_at :: "int option"
  created_at :: int

text \<open>
  \<open>this.company_name && this.company_name.length > 0\<close>, the test of
  \<open>Lead.prototype.calculateScore\<close>; for a string it is the test that it is not empty.
\<close>

definition company_name_present :: "lead \<Rightarrow> bool" where
  "company_name_present l = (truthy_str (company_name l) \<and>
     (case company_name l of Val s \<Rightarrow> length s > 0 | _ \<Rightarrow> False))"

text \<open>
  The table \<open>serviceTypeScores\<close>; \<open>serviceTypeScores[t] || 0\<close> is 0 for a type that
  the table does not have. The column \<open>service_type\<close> is an ENUM of the five types of
  the table, so a stored type is never the name of an inherited property.
\<close>

definition serviceTypeScores :: "(string \<times> int) list" where
  "serviceTypeScores =
     [(''corporate'', 25), (''airport'', 20), (''events'', 15), (''wedding'', 15), (''hourly'', 10)]"

definition lookup_or_0 :: "(string \<times> int) list \<Rightarrow> string \<Rightarrow> int" where
  "lookup_or_0 m k = (case map_of m k of Some v \<Rightarrow> (if v \<noteq> 0 then v else 0) | None \<Rightarrow> 0)"

text \<open>\<open>Lead.prototype.calculateScore\<close>: the five additions in the source's order, then the cap.\<close>

definition value_points :: "lead \<Rightarrow> int" where
  "value_points l =
     (if js_ge (toNumber (estimated_value l)) (Some 1000) then 30
      else if js_ge (toNumber (estimated_value l)) (Some 500) then 20
      else if js_gt (toNumber (estimated_value l)) (Some 0) then 10
      else 0)"

definition proximity_points :: "lead \<Rightarrow> int" where
  "proximity_points l =
     (if js_le (toNumber (distance_from_base l)) (Some 25) then 15
      else if js_le (toNumber (distance_from_base l)) (Some 50) then 10
      else if js_le (toNumber (distance_from_base l)) (Some 100) then 5
      else 0)"

definition group_points :: "lead \<Rightarrow> int" where
  "group_points l =
     (if js_ge (toNumber (passenger_count l)) (Some 8) then 15
      else if js_ge (toNumber (passenger_count l)) (Some 4) then 10
      else 0)"

definition Lead_calculateScore :: "lead \<Rightarrow> int" where
  "Lead_calculateScore l =
     (let score = 0;
          score = score + (if company_name_present l then 10 else 0);
          score = score + value_points l;
          score = score + lookup_or_0 serviceTypeScores (service_type l);
          score = score + proximity_points l;
          score = score + group_points l
      in min score 100)"

text \<open>\<open>Lead.prototype.updatePriority\<close>.\<close>

definition updatePriority :: "lead \<Rightarrow> lead" where
  "updatePriority l =
     (if lead_score l \<ge> 80 then l\<lparr>priority_level := 5\<rparr>
      else if lead_score l \<ge> 60 then l\<lparr>priority_level := 4\<rparr>
      else if lead_score l \<ge> 40 then l\<lparr>priority_level := 3\<rparr>
      else if lead_score l \<ge> 20 then l\<lparr>priority_level := 2\<rparr>
      else l\<lparr>priority_level := 1\<rparr>)"

text \<open>The \<open>beforeCreate\<close> hook.\<close>

definition beforeCreate :: "lead \<Rightarrow> lead" where
  "beforeCreate l = updatePriority (l\<lparr>lead_score := Lead_calculateScore l\<rparr>)"


section \<open>Properties inherited from Object.prototype\<close>

text \<open>
  A lookup \<open>table[key]\<close> in a plain object finds the object's own property of that
  name, and otherwise a property of \<open>Object.prototype\<close>, which is a function or, for
  \<open>__proto__\<close>, the prototype itself: a truthy value that is not a number. These are
  the names of \<open>Object.prototype\<close>, each with the \<open>length\<close> of its value (\<open>None\<close>
  where the value has no such property).
\<close>

definition object_prototype_lengths :: "(string \<times> nat option) list" where
  "object_prototype_lengths =
     [(''constructor'', Some 1), (''__defineGetter__'', Some 2), (''__defineSetter__'', Some 2),
      (''hasOwnProperty'', Some 1), (''__lookupGetter__'', Some 1), (''__lookupSetter__'', Some 1),
      (''isPrototypeOf'', Some 1), (''propertyIsEnumerable'', Some 1), (''toString'', Some 0),
      (''valueOf'', Some 0), (''toLocaleString'', Some 0), (''__proto__'', None)]"

text \<open>A key that names no inherited property: a lookup with it finds own properties only.\<close>

definition plain_key :: "string \<Rightarrow> bool" where
  "plain_key k = (map_of object_prototype_lengths k = None)"

section \<open>Updating a lead\<close>

text \<open>
  \<open>lead.update(values)\<close> sets the given attributes and saves, which runs the
  \<open>beforeUpdate\<close> hook. An assignment names the attribute it sets; \<open>Set_other\<close> stands
  for any attribute that none of the functions below reads (notes, custom fields, CRM ids).
  The values of an update are the properties of one object, so an attribute is assigned
  at most once.
\<close>

datatype assign =
    Set_company_name "string nullable"
  | Set_estimated_value "rat nullable"
  | Set_service_type string
  | Set_passenger_count "rat nullable"
  | Set_distance_from_base "rat nullable"
  | Set_status string
  | Set_priority_level int
  | Set_lead_score int
  | Set_converted_at "int option"
  | Set_other string

fun set_attr :: "lead \<Rightarrow> assign \<Rightarrow> lead" where
  "set_attr l (Set_company_name v) = l\<lparr>company_name := v\<rparr>"
| "set_attr l (Set_estimated_value v) = l\<lparr>estimated_value := v\<rparr>"
| "set_attr l (Set_service_type v) = l\<lparr>service_type := v\<rparr>"
| "set_attr l (Set_passenger_count v) = l\<lparr>passenger_count := v\<rparr>"
| "set_attr l (Set_distance_from_base v) = l\<lparr>distance_from_base := v\<rparr>"
| "set_attr l (Set_status v) = l\<lparr>status := v\<rparr>"
| "set_attr l (Set_priority_level v) = l\<lparr>priority_level := v\<rparr>"
| "set_attr l (Set_lead_score v) = l\<lparr>lead_score := v\<rparr>"
| "set_attr l (Set_converted_at v) = l\<lparr>converted_at := v\<rparr>"
| "set_attr l (Set_other k) = l"

text \<open>
  \<open>lead.changed(k)\<close>. Setting a value marks the attribute changed when the value is
  not equal to the one that the instance holds. An instance read from the database
  holds its DECIMAL columns, \<open>estimated_value\<close> and \<open>distance_from_base\<close>, as strings,
  and the updates set numbers: a number is never equal to a string, so setting a number
  marks such an attribute changed whatever the number is. \<open>from_db\<close> says that the
  instance was read from the database, as it is in every route that updates a lead.
\<close>

fun sets_estimated_value_number :: "assign \<Rightarrow> bool" where
  "sets_estimated_value_number (Set_estimated_value (Val r)) = True"
| "sets_estimated_value_number _ = False"

fun sets_distance_number :: "assign \<Rightarrow> bool" where
  "sets_distance_number (Set_distance_from_base (Val r)) = True"
| "sets_distance_number _ = False"

definition changed :: "bool \<Rightarrow> assign list \<Rightarrow> lead \<Rightarrow> lead \<Rightarrow> string \<Rightarrow> bool" where
  "changed from_db vals prev l k =
     (if k = ''estimated_value'' then
        estimated_value l \<noteq> estimated_value prev
        \<or> (from_db \<and> list_ex sets_estimated_value_number vals)
      else if k = ''distance_from_base'' then
        distance_from_base l \<noteq> distance_from_base prev
        \<or> (from_db \<and> list_ex sets_distance_number vals)
      else if k = ''service_type'' then service_type l \<noteq> service_type prev
      else if k = ''passenger_count'' then passenger_count l \<noteq> passenger_count prev
      else if k = ''status'' then status l \<noteq> status prev
      else False)"

text \<open>
  The \<open>beforeUpdate\<close> hook: \<open>lead_changed\<close> is \<open>lead.changed\<close>, \<open>l\<close> holds the values
  after the assignments, \<open>now\<close> is the clock.
\<close>

definition beforeUpdate :: "int \<Rightarrow> (string \<Rightarrow> bool) \<Rightarrow> lead \<Rightarrow> lead" where
  "beforeUpdate now lead_changed l =
     (let l1 = (if lead_changed ''estimated_value'' \<or> lead_changed ''service_type'' \<or>
                   lead_changed ''passenger_count'' \<or> lead_changed ''distance_from_base''
                then updatePriority (l\<lparr>lead_score := Lead_calculateScore l\<rparr>)
                else l)
      in if lead_changed ''status'' \<and> status l1 = ''converted''
         then l1\<lparr>converted_at := Some now\<rparr>
         else l1)"

definition Lead_update :: "int \<Rightarrow> bool \<Rightarrow> assign list \<Rightarrow> lead \<Rightarrow> lead" where
  "Lead_update now from_db vals l =
     beforeUpdate now (changed from_db vals l (foldl set_attr l vals)) (foldl set_attr l vals)"

text \<open>
  The threshold table as the specification words it, to compare \<open>updatePriority\<close> with:
  5 from 80, 4 from 60 to 79, 3 from 40 to 59, 2 from 20 to 39, 1 below 20.
\<close>

definition spec_priority :: "int \<Rightarrow> int" where
  "spec_priority score =
     (if score \<ge> 80 then 5
      else if 60 \<le> score \<and> score < 80 then 4
      else if 40 \<le> score \<and> score < 60 then 3
      else if 20 \<le> score \<and> score < 40 then 2
      else 1)"


section \<open>Dates\<close>

text \<open>
  A \<open>Date\<close> is its time value in milliseconds. \<open>getHours\<close> and \<open>getDay\<close> read the local
  time; the model takes the local zone to be UTC without daylight saving, so that the
  1st of January 1970, a Thursday (day 4), starts at 0.
\<close>

definition getHours :: "int \<Rightarrow> int" where
  "getHours t = (t div 3600000) mod 24"

definition getDay :: "int \<Rightarrow> int" where
  "getDay t = ((t div 86400000) + 4) mod 7"

section \<open>The ScoringFactor model\<close>

text \<open>
  \<open>value_mappings\<close> is a JSONB column that nothing validates: it holds whatever JSON
  value was stored. The model tells apart what the scoring code tells apart. Of a
  stored point value: an integer number; another falsy value (\<open>null\<close>, \<open>false\<close>, the
  empty string); another truthy value (a fraction, a string, \<open>true\<close>, an array, an
  object). Of the column: an object, given by the list of its entries in the order
  \<open>Object.entries\<close> yields them; a falsy value (a null column), for which the code takes
  the empty object; another truthy value, such as the string that \<open>JSON.stringify\<close>
  makes of an object.
\<close>

datatype points = Int_points int | Falsy_value | Truthy_value

datatype mappings_json = Json_object "(string \<times> points) list" | Json_falsy | Json_other

record scoring_factor =
  factor_name :: string
  factor_category :: string
  weight :: int
  calculation_method :: string
  value_mappings :: mappings_json
  factor_active :: bool

text \<open>
  A score of the model is an integer, or \<open>None\<close> where the source goes on with a value
  that is not an integer number (it adds up a fraction, appends to a string, or reads a
  column that is not an object): there the model does not follow it.

  \<open>mappings[key] || 0\<close>: an own entry of the object, else a property inherited from
  \<open>Object.prototype\<close>, else \<open>undefined\<close>; a falsy result is replaced by 0.
\<close>

definition mapped_or_0 :: "mappings_json \<Rightarrow> string \<Rightarrow> int option" where
  "mapped_or_0 mappings k =
     (case mappings of
        Json_object m \<Rightarrow>
          (case map_of m k of
             Some (Int_points p) \<Rightarrow> Some p
           | Some Falsy_value \<Rightarrow> Some 0
           | Some Truthy_value \<Rightarrow> None
           | None \<Rightarrow> (if plain_key k then Some 0 else None))
      | Json_falsy \<Rightarrow> (if plain_key k then Some 0 else None)
      | Json_other \<Rightarrow> None)"

text \<open>
  \<open>parseInt\<close> and \<open>Number\<close> are built into the language: the scoring functions take
  them as parameters, with \<open>None\<close> for NaN.
\<close>

record js_builtins =
  js_parseInt :: "string \<Rightarrow> rat option"
  js_Number :: "string \<Rightarrow> rat option"

text \<open>
  The two built-ins on decimal notation, for computing with the model: \<open>parseInt\<close>
  skips leading blanks, takes a sign and the longest run of digits, and is NaN when
  there is none; \<open>Number\<close> wants the whole trimmed string to be a signed decimal
  numeral, and is 0 on the empty string. They agree with the language on strings made
  of digits, signs, points and blanks.
\<close>

definition is_digit :: "char \<Rightarrow> bool" where
  "is_digit c = (48 \<le> (of_char c :: nat) \<and> (of_char c :: nat) \<le> 57)"

definition digits_value :: "string \<Rightarrow> nat" where
  "digits_value ds = foldl (\<lambda>acc c. acc * 10 + ((of_char c :: nat) - 48)) 0 ds"

definition is_blank :: "char \<Rightarrow> bool" where
  "is_blank c = (c = CHR '' '')"

definition split_sign :: "string \<Rightarrow> rat \<times> string" where
  "split_sign s =
     (case s of
        c # r \<Rightarrow> (if c = CHR ''-'' then (-1, r) else if c = CHR ''+'' then (1, r) else (1, s))
      | [] \<Rightarrow> (1, s))"

definition parseInt_decimal :: "string \<Rightarrow> rat option" where
  "parseInt_decimal s =
     (let (sign, r) = split_sign (dropWhile is_blank s);
          ds = takeWhile is_digit r
      in if ds = [] then None else Some (sign * of_nat (digits_value ds)))"

definition trim :: "string \<Rightarrow> string" where
  "trim s = rev (dropWhile is_blank (rev (dropWhile is_blank s)))"

definition Number_decimal :: "string \<Rightarrow> rat option" where
  "Number_decimal s =
     (let t = trim s in
      if t = [] then Some 0
      else
        (let (sign, r) = split_sign t;
             ip = takeWhile is_digit r;
             rest = dropWhile is_digit r
         in case rest of
              [] \<Rightarrow> (if ip = [] then None else Some (sign * of_nat (digits_value ip)))
            | c # fp \<Rightarrow>
                (if c = CHR ''.'' \<and> list_all is_digit fp \<and> (ip \<noteq> [] \<or> fp \<noteq> [])
                 then Some (sign * (of_nat (digits_value ip)
                                    + of_nat (digits_value fp) / 10 ^ length fp))
                 else None)))"

definition decimal_builtins :: js_builtins where
  "decimal_builtins = \<lparr>js_parseInt = parseInt_decimal, js_Number = Number_decimal\<rparr>"

text \<open>\<open>range.replace('+', '')\<close> removes the first plus sign.\<close>

definition remove_first_plus :: "string \<Rightarrow> string" where
  "remove_first_plus r =
     takeWhile (\<lambda>c. c \<noteq> CHR ''+'') r @ drop 1 (dropWhile (\<lambda>c. c \<noteq> CHR ''+'') r)"

text \<open>The first two parts of \<open>range.split('-')\<close>, for a range that holds a minus sign.\<close>

definition split_min :: "string \<Rightarrow> string" where
  "split_min r = takeWhile (\<lambda>c. c \<noteq> CHR ''-'') r"

definition split_max :: "string \<Rightarrow> string" where
  "split_max r = takeWhile (\<lambda>c. c \<noteq> CHR ''-'') (drop 1 (dropWhile (\<lambda>c. c \<noteq> CHR ''-'') r))"

definition valueInRange :: "js_builtins \<Rightarrow> rat \<Rightarrow> string \<Rightarrow> bool" where
  "valueInRange js v rng =
     (if CHR ''+'' \<in> set rng then
        (let minValue = js_parseInt js (remove_first_plus rng) in js_ge (Some v) minValue)
      else if CHR ''-'' \<in> set rng then
        (let mn = js_Number js (split_min rng); mx = js_Number js (split_max rng)
         in js_ge (Some v) mn \<and> js_le (Some v) mx)
      else js_strict_eq (Some v) (js_parseInt js rng))"

definition calculateExactMatch :: "scoring_factor \<Rightarrow> lead \<Rightarrow> mappings_json \<Rightarrow> int option" where
  "calculateExactMatch f l mappings =
     (if factor_name f = ''company_name_present'' then
        mapped_or_0 mappings (if company_name_present l then ''present'' else ''absent'')
      else if factor_name f = ''service_type_priority'' then
        mapped_or_0 mappings (service_type l)
      else if factor_name f = ''budget_tier'' then
        mapped_or_0 mappings (key_of (budget_tier l))
      else Some 0)"

text \<open>
  The loop of \<open>calculateRange\<close> over \<open>Object.entries(mappings)\<close>: the stored value of
  the first entry whose range holds the value, returned as it is.
\<close>

fun first_in_range :: "js_builtins \<Rightarrow> rat \<Rightarrow> (string \<times> points) list \<Rightarrow> int option" where
  "first_in_range js v [] = Some 0"
| "first_in_range js v ((rng, score) # rest) =
     (if valueInRange js v rng
      then (case score of Int_points p \<Rightarrow> Some p | _ \<Rightarrow> None)
      else first_in_range js v rest)"

definition range_points :: "js_builtins \<Rightarrow> rat \<Rightarrow> mappings_json \<Rightarrow> int option" where
  "range_points js v mappings =
     (case mappings of
        Json_object m \<Rightarrow> first_in_range js v m
      | Json_falsy \<Rightarrow> Some 0
      | Json_other \<Rightarrow> None)"

definition calculateRange ::
  "js_builtins \<Rightarrow> scoring_factor \<Rightarrow> lead \<Rightarrow> mappings_json \<Rightarrow> int option" where
  "calculateRange js f l mappings =
     (if factor_name f = ''estimated_value_tier'' then
        range_points js (num_or (estimated_value l) 0) mappings
      else if factor_name f = ''geographic_proximity'' then
        range_points js (num_or (distance_from_base l) 999) mappings
      else if factor_name f = ''group_size_factor'' then
        range_points js (num_or (passenger_count l) 1) mappings
      else if factor_name f = ''company_size_estimate'' then
        range_points js (num_or (company_size_estimate l) 0) mappings
      else Some 0)"

text \<open>\<open>calculateDynamic\<close> reads the clock: \<open>now\<close> is the value of \<open>new Date()\<close>.\<close>

definition contact_completeness :: "lead \<Rightarrow> int" where
  "contact_completeness l =
     (let completeness = 0;
          completeness = completeness + (if truthy_str (email l) then 25 else 0);
          completeness = completeness + (if truthy_str (phone l) then 25 else 0);
          completeness = completeness + (if truthy_str (company_name l) then 25 else 0);
          completeness = completeness
             + (if truthy_str (pickup_location l) \<or> truthy_str (destination l) then 25 else 0)
      in completeness)"

definition calculateDynamic ::
  "int \<Rightarrow> scoring_factor \<Rightarrow> lead \<Rightarrow> mappings_json \<Rightarrow> int option" where
  "calculateDynamic now f l mappings =
     (if factor_name f = ''timing_urgency'' then
        (case service_date l of
           None \<Rightarrow> mapped_or_0 mappings ''future''
         | Some serviceDate \<Rightarrow>
             (let hoursUntilService = (of_int (serviceDate - now) :: rat) / (1000 * 60 * 60) in
              if hoursUntilService \<le> 24 then mapped_or_0 mappings ''same_day''
              else if hoursUntilService \<le> 48 then mapped_or_0 mappings ''next_day''
              else mapped_or_0 mappings ''future''))
      else if factor_name f = ''contact_completeness'' then
        (let completeness = contact_completeness l in
         if completeness \<ge> 100 then mapped_or_0 mappings ''complete''
         else if completeness \<ge> 75 then mapped_or_0 mappings ''mostly_complete''
         else if completeness \<ge> 50 then mapped_or_0 mappings ''partial''
         else mapped_or_0 mappings ''minimal'')
      else Some 0)"

definition calculateBoolean :: "scoring_factor \<Rightarrow> lead \<Rightarrow> mappings_json \<Rightarrow> int option" where
  "calculateBoolean f l mappings =
     (let condition =
            (if factor_name f = ''has_website'' then
               truthy_str (website l) \<and> (case website l of Val s \<Rightarrow> length s > 0 | _ \<Rightarrow> False)
             else if factor_name f = ''repeat_customer'' then False
             else if factor_name f = ''weekend_submission'' then
               (let dayOfWeek = getDay (created_at l) in dayOfWeek = 0 \<or> dayOfWeek = 6)
             else False)
      in if condition then mapped_or_0 mappings ''true'' else mapped_or_0 mappings ''false'')"

text \<open>
  \<open>ScoringFactor.prototype.calculateScore\<close>; \<open>this.value_mappings || {}\<close> leaves a
  falsy column as the empty object.
\<close>

definition ScoringFactor_calculateScore ::
  "js_builtins \<Rightarrow> int \<Rightarrow> scoring_factor \<Rightarrow> lead \<Rightarrow> int option" where
  "ScoringFactor_calculateScore js now f l =
     (if \<not> factor_active f then Some 0
      else
        (let mappings = value_mappings f in
         if calculation_method f = ''exact_match'' then calculateExactMatch f l mappings
         else if calculation_method f = ''range'' then calculateRange js f l mappings
         else if calculation_method f = ''calculation'' then calculateDynamic now f l mappings
         else if calculation_method f = ''boolean'' then calculateBoolean f l mappings
         else Some 0))"

text \<open>
  \<open>ScoringFactor.findActive\<close> selects the active rows of the table; its ORDER BY only
  fixes the order in which the loop of \<open>calculateLeadScore\<close> adds the points up.
\<close>

definition findActive :: "scoring_factor list \<Rightarrow> scoring_factor list" where
  "findActive factors = filter factor_active factors"

text \<open>\<open>totalScore += score\<close>, for as long as both are integers.\<close>

definition add_score :: "int option \<Rightarrow> int option \<Rightarrow> int option" where
  "add_score totalScore score =
     (case (totalScore, score) of (Some t, Some s) \<Rightarrow> Some (t + s) | _ \<Rightarrow> None)"

definition calculateLeadScore ::
  "js_builtins \<Rightarrow> int \<Rightarrow> scoring_factor list \<Rightarrow> lead \<Rightarrow> int option" where
  "calculateLeadScore js now factors l =
     (let totalScore =
            foldl (\<lambda>acc f. add_score acc (ScoringFactor_calculateScore js now f l))
              (Some 0) (findActive factors)
      in map_option (\<lambda>t. min t 100) totalScore)"

text \<open>
  Every factor keeps an object or a null column, and every point value in it is an
  integer that is at least 0.
\<close>

definition natural_points :: "scoring_factor list \<Rightarrow> bool" where
  "natural_points factors =
     list_all (\<lambda>f. case value_mappings f of
                      Json_object m \<Rightarrow>
                        list_all (\<lambda>(k, p). case p of Int_points n \<Rightarrow> 0 \<le> n | _ \<Rightarrow> False) m
                    | Json_falsy \<Rightarrow> True
                    | Json_other \<Rightarrow> False) factors"

section \<open>Errors\<close>

text \<open>What the handlers throw, as values.\<close>

datatype error =
    Lead_not_found
  | Validation_error
  | Unique_constraint_error
  | External_service_error

section \<open>The EmailSequence model\<close>

record email_sequence =
  seq_lead_id :: nat
  sequence_name :: string
  current_step :: int
  total_steps :: int
  started_at :: int
  next_send_at :: "int option"
  completed_at :: "int option"
  active :: bool
  paused_reason :: "string option"
  emails_sent :: int
  emails_opened :: int
  responses_received :: int

text \<open>The step delays in minutes of \<open>calculateNextSendTime\<close>, by sequence name.\<close>

definition sequences :: "(string \<times> int list) list" where
  "sequences =
     [(''standard_follow_up'', [0, 3 * 24 * 60, 7 * 24 * 60, 14 * 24 * 60]),
      (''high_value_follow_up'', [0, 2 * 60, 24 * 60, 3 * 24 * 60]),
      (''corporate_nurture'', [0, 24 * 60, 7 * 24 * 60, 30 * 24 * 60]),
      (''wedding_follow_up'', [0, 2 * 24 * 60, 7 * 24 * 60, 21 * 24 * 60])]"

text \<open>
  \<open>sequences[this.sequence_name] || sequences['standard_follow_up']\<close>: the delays of
  the name; for a name that \<open>Object.prototype\<close> has, the inherited value, of which the
  code reads the \<open>length\<close>; the standard delays for any other name.
\<close>

datatype timing = Delay_table "int list" | Inherited_value "nat option"

definition timingMinutes :: "string \<Rightarrow> timing" where
  "timingMinutes name =
     (case map_of sequences name of
        Some t \<Rightarrow> Delay_table t
      | None \<Rightarrow>
          (case map_of object_prototype_lengths name of
             Some len \<Rightarrow> Inherited_value len
           | None \<Rightarrow> Delay_table [0, 3 * 24 * 60, 7 * 24 * 60, 14 * 24 * 60]))"

text \<open>
  \<open>timingMinutes[this.current_step - 1] || 0\<close>: an index outside the array reads
  \<open>undefined\<close>, which the \<open>||\<close> turns into 0.
\<close>

definition delay_at :: "int list \<Rightarrow> int \<Rightarrow> int" where
  "delay_at t step =
     (if 1 \<le> step \<and> step \<le> int (length t) then t ! nat (step - 1) else 0)"

text \<open>
  \<open>calculateNextSendTime\<close>. An inherited value has no element at any index, so its
  delay is 0; one without \<open>length\<close> fails the comparison.
\<close>

definition calculateNextSendTime :: "int \<Rightarrow> email_sequence \<Rightarrow> email_sequence" where
  "calculateNextSendTime now s =
     (case timingMinutes (sequence_name s) of
        Delay_table t \<Rightarrow>
          (if current_step s \<le> int (length t) then
             (let delayMinutes = delay_at t (current_step s)
              in s\<lparr>next_send_at := Some (now + delayMinutes * 60 * 1000)\<rparr>)
           else s)
      | Inherited_value (Some n) \<Rightarrow>
          (if current_step s \<le> int n then s\<lparr>next_send_at := Some (now + 0 * 60 * 1000)\<rparr>
           else s)
      | Inherited_value None \<Rightarrow> s)"

definition complete :: "int \<Rightarrow> email_sequence \<Rightarrow> email_sequence" where
  "complete now s = s\<lparr>active := False, completed_at := Some now, next_send_at := None\<rparr>"

definition pause :: "string \<Rightarrow> email_sequence \<Rightarrow> email_sequence" where
  "pause reason s = s\<lparr>active := False, paused_reason := Some reason, next_send_at := None\<rparr>"

definition resume :: "int \<Rightarrow> email_sequence \<Rightarrow> email_sequence" where
  "resume now s = calculateNextSendTime now (s\<lparr>active := True, paused_reason := None\<rparr>)"

definition advance :: "int \<Rightarrow> email_sequence \<Rightarrow> email_sequence" where
  "advance now s =
     (if current_step s < total_steps s
      then calculateNextSendTime now (s\<lparr>current_step := current_step s + 1\<rparr>)
      else complete now s)"

definition recordEmailSent :: "email_sequence \<Rightarrow> email_sequence" where
  "recordEmailSent s = s\<lparr>emails_sent := emails_sent s + 1\<rparr>"

definition recordEmailOpened :: "email_sequence \<Rightarrow> email_sequence" where
  "recordEmailOpened s = s\<lparr>emails_opened := emails_opened s + 1\<rparr>"

definition recordResponse :: "int \<Rightarrow> email_sequence \<Rightarrow> email_sequence" where
  "recordResponse now s = complete now (s\<lparr>responses_received := responses_received s + 1\<rparr>)"

text \<open>
  The table \<open>email_sequences\<close> is the list of its rows; a row is identified by its
  position, which stands for the primary key.

  \<open>createStandardSequence\<close> reads \<open>total_steps\<close> from the configuration of the
  sequence type, or from the standard one; the value inherited for a name of
  \<open>Object.prototype\<close> has no \<open>total_steps\<close>, and the column does not allow null. The
  other validators of the model are a parameter, \<open>valid\<close>. A row that passes gets the
  column defaults and, from the \<open>beforeCreate\<close> hook, its first send time, and is
  inserted. The function does not look at the rows that exist.
\<close>

definition sequenceConfig :: "(string \<times> int) list" where
  "sequenceConfig =
     [(''standard_follow_up'', 4), (''high_value_follow_up'', 4),
      (''corporate_nurture'', 4), (''wedding_follow_up'', 4)]"

definition config_total_steps :: "string \<Rightarrow> int option" where
  "config_total_steps sequenceType =
     (case map_of sequenceConfig sequenceType of
        Some n \<Rightarrow> Some n
      | None \<Rightarrow> (if plain_key sequenceType then Some 4 else None))"

definition new_sequence :: "int \<Rightarrow> nat \<Rightarrow> string \<Rightarrow> int \<Rightarrow> email_sequence" where
  "new_sequence now leadId sequenceType steps =
     \<lparr>seq_lead_id = leadId, sequence_name = sequenceType, current_step = 1,
      total_steps = steps, started_at = now, next_send_at = None, completed_at = None,
      active = True, paused_reason = None, emails_sent = 0, emails_opened = 0,
      responses_received = 0\<rparr>"

definition createStandardSequence ::
  "(email_sequence \<Rightarrow> bool) \<Rightarrow> int \<Rightarrow> nat \<Rightarrow> string \<Rightarrow> email_sequence list
     \<Rightarrow> error + email_sequence list" where
  "createStandardSequence valid now leadId sequenceType tbl =
     (case config_total_steps sequenceType of
        None \<Rightarrow> Inl Validation_error
      | Some steps \<Rightarrow>
          (if valid (new_sequence now leadId sequenceType steps)
           then Inr (tbl @ [calculateNextSendTime now (new_sequence now leadId sequenceType steps)])
           else Inl Validation_error))"

text \<open>The rows \<open>where: { lead_id, active: true }\<close>.\<close>

definition active_for_lead :: "nat \<Rightarrow> email_sequence \<Rightarrow> bool" where
  "active_for_lead leadId s = (seq_lead_id s = leadId \<and> active s)"

fun find_index :: "('a \<Rightarrow> bool) \<Rightarrow> 'a list \<Rightarrow> nat option" where
  "find_index P [] = None"
| "find_index P (x # xs) = (if P x then Some 0 else map_option Suc (find_index P xs))"

text \<open>The sequence type that each of the two callers asks for.\<close>

definition instant_sequence_type :: "lead \<Rightarrow> string" where
  "instant_sequence_type l =
     (if lead_score l \<ge> 70 then ''high_value_follow_up''
      else if service_type l = ''corporate'' then ''corporate_nurture''
      else if service_type l = ''wedding'' then ''wedding_follow_up''
      else ''standard_follow_up'')"

definition trigger_sequence_type :: "lead \<Rightarrow> string" where
  "trigger_sequence_type l =
     (if lead_score l \<ge> 70 then ''high_value_follow_up'' else ''standard_follow_up'')"

subsection \<open>Runs that nothing interleaves\<close>

text \<open>
  \<open>processInstantResponse\<close>, run from its first line to its last with no other run
  in between. Its inputs are what its queries and services return: the lead that
  \<open>Lead.findByPk\<close> finds, whether a template was found, and whether the mail service
  accepted the message. Whatever is thrown is caught and thrown again as a failure of
  the mail service. The interaction row, the template counter and the log lines it
  writes are left out: they do not touch the sequences.
\<close>

datatype instant_result = Skipped_no_template | Sent

definition processInstantResponse ::
  "(email_sequence \<Rightarrow> bool) \<Rightarrow> int \<Rightarrow> lead option \<Rightarrow> bool \<Rightarrow> bool \<Rightarrow> email_sequence list
     \<Rightarrow> email_sequence list \<times> (error + instant_result)" where
  "processInstantResponse valid now found template_found email_ok tbl =
     (case found of
        None \<Rightarrow> (tbl, Inl External_service_error)
      | Some l \<Rightarrow>
          if \<not> template_found then (tbl, Inr Skipped_no_template)
          else if \<not> email_ok then (tbl, Inl External_service_error)
          else
            (let existingSequences = filter (active_for_lead (lead_id l)) tbl in
             if length existingSequences = 0 then
               (case createStandardSequence valid now (lead_id l) (instant_sequence_type l) tbl of
                  Inl e \<Rightarrow> (tbl, Inl External_service_error)
                | Inr tbl' \<Rightarrow> (tbl', Inr Sent))
             else (tbl, Inr Sent)))"

text \<open>
  The workflow \<open>follow_up_sequence\<close> of the automation trigger route, run likewise.
\<close>

datatype trigger_result = Resumed nat | Created nat

definition trigger_follow_up_sequence ::
  "(email_sequence \<Rightarrow> bool) \<Rightarrow> int \<Rightarrow> lead \<Rightarrow> email_sequence list
     \<Rightarrow> email_sequence list \<times> (error + trigger_result)" where
  "trigger_follow_up_sequence valid now l tbl =
     (case find_index (active_for_lead (lead_id l)) tbl of
        Some i \<Rightarrow> (tbl[i := resume now (tbl ! i)], Inr (Resumed i))
      | None \<Rightarrow>
          (case createStandardSequence valid now (lead_id l) (trigger_sequence_type l) tbl of
             Inl e \<Rightarrow> (tbl, Inl e)
           | Inr tbl' \<Rightarrow> (tbl', Inr (Created (length tbl)))))"

text \<open>
  The bulk update of the lead update route, when a lead becomes converted or lost:
  \<open>EmailSequence.update({ active: false, completed_at }, { where: { lead_id, active: true } })\<close>.
\<close>

definition stop_sequences :: "int \<Rightarrow> nat \<Rightarrow> email_sequence list \<Rightarrow> email_sequence list" where
  "stop_sequences now leadId tbl =
     map (\<lambda>s. if active_for_lead leadId s then s\<lparr>active := False, completed_at := Some now\<rparr> else s) tbl"

text \<open>
  The rows that the code makes, whatever the order of its runs: a row is inserted by one
  of the two callers of \<open>createStandardSequence\<close>, and changes by an instance method or
  by the bulk update, each of which writes one row from the values of that row.
\<close>

inductive sequence_row :: "email_sequence \<Rightarrow> bool" where
  row_instant:
    "createStandardSequence valid now (lead_id l) (instant_sequence_type l) tbl = Inr tbl' \<Longrightarrow>
       sequence_row (last tbl')"
| row_trigger:
    "createStandardSequence valid now (lead_id l) (trigger_sequence_type l) tbl = Inr tbl' \<Longrightarrow>
       sequence_row (last tbl')"
| row_advance: "sequence_row s \<Longrightarrow> sequence_row (advance now s)"
| row_complete: "sequence_row s \<Longrightarrow> sequence_row (complete now s)"
| row_pause: "sequence_row s \<Longrightarrow> sequence_row (pause reason s)"
| row_resume: "sequence_row s \<Longrightarrow> sequence_row (resume now s)"
| row_sent: "sequence_row s \<Longrightarrow> sequence_row (recordEmailSent s)"
| row_opened: "sequence_row s \<Longrightarrow> sequence_row (recordEmailOpened s)"
| row_response: "sequence_row s \<Longrightarrow> sequence_row (recordResponse now s)"
| row_stop: "sequence_row s \<Longrightarrow> sequence_row (s\<lparr>active := False, completed_at := Some now\<rparr>)"

text \<open>
  The tables that the code builds when its operations run one after the other: the
  table starts empty, rows are inserted by the two callers of
  \<open>createStandardSequence\<close>, and a row changes by the instance methods that
  \<open>processSequenceStep\<close> calls, or by the bulk update. \<open>resume\<close> has one caller, the
  trigger above.
\<close>

inductive serially_reachable :: "(email_sequence \<Rightarrow> bool) \<Rightarrow> email_sequence list \<Rightarrow> bool"
  for valid :: "email_sequence \<Rightarrow> bool" where
  init: "serially_reachable valid []"
| instant: "serially_reachable valid tbl \<Longrightarrow>
     serially_reachable valid (fst (processInstantResponse valid now found template_found email_ok tbl))"
| trigger: "serially_reachable valid tbl \<Longrightarrow>
     serially_reachable valid (fst (trigger_follow_up_sequence valid now l tbl))"
| do_advance: "serially_reachable valid tbl \<Longrightarrow> i < length tbl \<Longrightarrow>
     serially_reachable valid (tbl[i := advance now (tbl ! i)])"
| do_complete: "serially_reachable valid tbl \<Longrightarrow> i < length tbl \<Longrightarrow>
     serially_reachable valid (tbl[i := complete now (tbl ! i)])"
| do_pause: "serially_reachable valid tbl \<Longrightarrow> i < length tbl \<Longrightarrow>
     serially_reachable valid (tbl[i := pause reason (tbl ! i)])"
| do_sent: "serially_reachable valid tbl \<Longrightarrow> i < length tbl \<Longrightarrow>
     serially_reachable valid (tbl[i := recordEmailSent (tbl ! i)])"
| do_opened: "serially_reachable valid tbl \<Longrightarrow> i < length tbl \<Longrightarrow>
     serially_reachable valid (tbl[i := recordEmailOpened (tbl ! i)])"
| do_response: "serially_reachable valid tbl \<Longrightarrow> i < length tbl \<Longrightarrow>
     serially_reachable valid (tbl[i := recordResponse now (tbl ! i)])"
| do_stop: "serially_reachable valid tbl \<Longrightarrow> serially_reachable valid (stop_sequences now leadId tbl)"

definition count_active :: "nat \<Rightarrow> email_sequence list \<Rightarrow> nat" where
  "count_active leadId tbl = length (filter (active_for_lead leadId) tbl)"

subsection \<open>Interleaved runs\<close>

text \<open>
  The two inserting operations at the grain of their awaited queries. A run awaits the
  query for the active sequences of its lead, and later, when it found none, awaits the
  insert; nothing holds the table in between (no transaction, no lock, no unique index
  on the lead), and the queue runs up to ten instant responses at a time. \<open>pending\<close>
  holds the inserts that runs have decided on and not yet made: the lead and the
  sequence type of each.
\<close>

inductive interleaved ::
  "(email_sequence \<Rightarrow> bool) \<Rightarrow> email_sequence list \<Rightarrow> (nat \<times> string) list \<Rightarrow> bool"
  for valid :: "email_sequence \<Rightarrow> bool" where
  start: "interleaved valid [] []"
| instant_found_none:
    "interleaved valid tbl pending \<Longrightarrow> length (filter (active_for_lead (lead_id l)) tbl) = 0 \<Longrightarrow>
       interleaved valid tbl (pending @ [(lead_id l, instant_sequence_type l)])"
| trigger_found_none:
    "interleaved valid tbl pending \<Longrightarrow> find_index (active_for_lead (lead_id l)) tbl = None \<Longrightarrow>
       interleaved valid tbl (pending @ [(lead_id l, trigger_sequence_type l)])"
| insert:
    "interleaved valid tbl pending \<Longrightarrow> i < length pending \<Longrightarrow>
       createStandardSequence valid now (fst (pending ! i)) (snd (pending ! i)) tbl = Inr tbl' \<Longrightarrow>
       interleaved valid tbl' (take i pending @ drop (Suc i) pending)"

section \<open>Form submissions\<close>

text \<open>
  The body of a form submission, after the request validation: the fields from which the
  handler builds the lead. \<open>Undefined\<close> is a field that the body does not have.
\<close>

record form_body =
  body_company_name :: "string nullable"
  body_email :: string
  body_phone :: "string nullable"
  body_website :: "string nullable"
  body_service_type :: string
  body_service_date :: "int option"
  body_pickup_location :: "string nullable"
  body_destination :: "string nullable"
  body_passenger_count :: "rat nullable"
  body_estimated_value :: "rat nullable"
  body_budget_tier :: "string nullable"

record webhook_log =
  log_source :: string
  event_type :: string
  processed :: bool
  processed_at :: "int option"
  log_lead_id :: "nat option"
  error_message :: "string option"
  retry_count :: int

datatype job = Instant_response nat | High_value_alert nat | Integration_sync nat

record intake_state =
  leads :: "lead list"
  webhook_logs :: "webhook_log list"
  queued :: "job list"

text \<open>\<open>x || ''\<close> and \<open>x || null\<close> on the fields of the body.\<close>

definition str_or_empty :: "string nullable \<Rightarrow> string nullable" where
  "str_or_empty v = (if truthy_str v then v else Val [])"

definition str_or_null :: "string nullable \<Rightarrow> string nullable" where
  "str_or_null v = (if truthy_str v then v else Null)"

definition num_or_null :: "rat nullable \<Rightarrow> rat nullable" where
  "num_or_null v = (if truthy_num v then v else Null)"

text \<open>
  \<open>leadData\<close>, completed with the column defaults that \<open>Lead.create\<close> fills in (score 0,
  status new, priority 3), the creation time and the new primary key. The key is a fresh
  UUID in the source and the row number here. The columns that the body does not set
  stay \<open>undefined\<close>.
\<close>

definition build_lead :: "int \<Rightarrow> nat \<Rightarrow> form_body \<Rightarrow> lead" where
  "build_lead now new_id b =
     \<lparr>lead_id = new_id,
      company_name = str_or_empty (body_company_name b),
      email = Val (body_email b),
      phone = str_or_null (body_phone b),
      website = str_or_null (body_website b),
      service_type = body_service_type b,
      service_date = body_service_date b,
      pickup_location = str_or_null (body_pickup_location b),
      destination = str_or_null (body_destination b),
      passenger_count = num_or_null (body_passenger_count b),
      estimated_value = num_or_null (body_estimated_value b),
      budget_tier = str_or_null (body_budget_tier b),
      company_size_estimate = Undefined,
      lead_score = 0,
      status = ''new'',
      priority_level = 3,
      distance_from_base = Undefined,
      converted_at = None,
      created_at = now\<rparr>"

text \<open>
  \<open>Lead.create\<close>: the validators of the model run first (they are a parameter,
  \<open>valid\<close>), then the \<open>beforeCreate\<close> hook, then the insert, which the unique index
  on \<open>email\<close> rejects when a row with the same address exists.
\<close>

definition Lead_create :: "(lead \<Rightarrow> bool) \<Rightarrow> lead \<Rightarrow> lead list \<Rightarrow> error + (lead \<times> lead list)" where
  "Lead_create valid l tbl =
     (if \<not> valid l then Inl Validation_error
      else
        (let l' = beforeCreate l in
         if email l' \<in> set (map email tbl) then Inl Unique_constraint_error
         else Inr (l', tbl @ [l'])))"

definition isHighValue :: "lead \<Rightarrow> bool" where
  "isHighValue l = (js_ge (toNumber (estimated_value l)) (Some 1000) \<or> lead_score l \<ge> 70)"

definition createFromRequest :: "string \<Rightarrow> string \<Rightarrow> webhook_log" where
  "createFromRequest src eventType =
     \<lparr>log_source = src, event_type = eventType, processed = False, processed_at = None,
      log_lead_id = None, error_message = None, retry_count = 0\<rparr>"

definition markProcessed :: "int \<Rightarrow> nat \<Rightarrow> webhook_log \<Rightarrow> webhook_log" where
  "markProcessed now leadId w =
     w\<lparr>processed := True, processed_at := Some now, error_message := None,
       log_lead_id := Some leadId\<rparr>"

definition markFailed :: "string \<Rightarrow> webhook_log \<Rightarrow> webhook_log" where
  "markFailed msg w =
     w\<lparr>processed := False, error_message := Some msg, retry_count := retry_count w + 1\<rparr>"

datatype submission_response =
    Duplicate_submission nat
  | Lead_created nat int int
  | Processing_failed error

text \<open>
  The handler of \<open>POST /form-submission\<close>. The request is logged first; a lead with the
  same address created in the last 24 hours makes the submission a duplicate; otherwise
  the lead is created and the three jobs are queued. When the creation throws, the
  \<open>catch\<close> block logs a second, failed entry. A queue that refuses a job is not modelled.
\<close>

definition form_submission ::
  "int \<Rightarrow> (lead \<Rightarrow> bool) \<Rightarrow> form_body \<Rightarrow> intake_state \<Rightarrow> intake_state \<times> submission_response" where
  "form_submission now valid b st =
     (let webhookLog = createFromRequest ''website_form'' ''form_submission'';
          leadData = build_lead now (length (leads st)) b;
          existingLead = find (\<lambda>l. email l = email leadData
                                    \<and> created_at l \<ge> now - 24 * 60 * 60 * 1000) (leads st)
      in case existingLead of
           Some e \<Rightarrow>
             (st\<lparr>webhook_logs := webhook_logs st @ [markProcessed now (lead_id e) webhookLog]\<rparr>,
              Duplicate_submission (lead_id e))
         | None \<Rightarrow>
             (case Lead_create valid leadData (leads st) of
                Inl err \<Rightarrow>
                  (st\<lparr>webhook_logs := webhook_logs st
                        @ [webhookLog,
                           markFailed ''Webhook processing failed''
                             (createFromRequest ''website_form'' ''form_submission_failed'')]\<rparr>,
                   Processing_failed err)
              | Inr (l, tbl) \<Rightarrow>
                  (st\<lparr>leads := tbl,
                      webhook_logs := webhook_logs st @ [markProcessed now (lead_id l) webhookLog],
                      queued := queued st
                        @ [Instant_response (lead_id l)]
                        @ (if isHighValue l then [High_value_alert (lead_id l)] else [])
                        @ [Integration_sync (lead_id l)]\<rparr>,
                   Lead_created (lead_id l) (lead_score l) (priority_level l))))"

section \<open>Response time alerts\<close>












section \<open>Business hours\<close>

text \<open>
  \<open>isBusinessHours\<close> declares no parameter: it reads the clock itself. Its argument
  here is that reading.
\<close>

definition isBusinessHours :: "int \<Rightarrow> bool" where
  "isBusinessHours now =
     (let hour = getHours now;
          dayOfWeek = getDay now;
          isWeekend = (dayOfWeek = 0 \<or> dayOfWeek = 6);
          minHour = (if isWeekend then 8 else 6);
          maxHour = (if isWeekend then 20 else 22)
      in hour \<ge> minHour \<and> hour < maxHour)"

text \<open>
  The clock is the sequence of its readings: \<open>clk k\<close> is what the \<open>k\<close>-th call of
  \<open>new Date()\<close> returns. The loop of \<open>getNextBusinessHour\<close> calls
  \<open>isBusinessHours(next)\<close>; the call drops the argument, so each test is a new reading
  of the clock, and \<open>next\<close> moves on by one hour each time the test fails.
  The loop may not end: it is a partial function, and \<open>None\<close> is a run that never returns.
\<close>

partial_function (option) next_business_loop :: "(nat \<Rightarrow> int) \<Rightarrow> nat \<Rightarrow> int \<Rightarrow> int option" where
  "next_business_loop clk k next_time =
     (if isBusinessHours (clk k) then Some next_time
      else next_business_loop clk (Suc k) (next_time + 3600000))"

text \<open>\<open>next.setHours(next.getHours() + 1, 0, 0, 0)\<close>: the start of the next hour.\<close>

definition start_of_next_hour :: "int \<Rightarrow> int" where
  "start_of_next_hour t = (t div 3600000 + 1) * 3600000"

definition getNextBusinessHour :: "(nat \<Rightarrow> int) \<Rightarrow> int option" where
  "getNextBusinessHour clk = next_business_loop clk 1 (start_of_next_hour (clk 0))"

text \<open>
  The reschedule path of \<open>processFollowUp\<close> for a template with
  \<open>business_hours_only\<close>: outside business hours it asks for the next business hour.
\<close>

datatype follow_up_step = Proceed | Reschedule_at int

definition follow_up_business_hours :: "(nat \<Rightarrow> int) \<Rightarrow> follow_up_step option" where
  "follow_up_business_hours clk =
     (if \<not> isBusinessHours (clk 0)
      then map_option Reschedule_at (getNextBusinessHour (\<lambda>k. clk (Suc k)))
      else Some Proceed)"

text \<open>A clock that stands still at \<open>t\<close>, and Saturday the 3rd of January 1970, 21:00.\<close>

definition frozen_clock :: "int \<Rightarrow> nat \<Rightarrow> int" where
  "frozen_clock t k = t"

definition saturday_21h :: int where
  "saturday_21h = 2 * 86400000 + 21 * 3600000"


section \<open>Predicates and concrete inputs of the properties\<close>

text \<open>The priority of a lead agrees with the threshold table at its stored score.\<close>

definition priority_consistent :: "lead \<Rightarrow> bool" where
  "priority_consistent l = (priority_level l = spec_priority (lead_score l))"

text \<open>One of the four attributes that \<open>beforeUpdate\<close> watches has another value.\<close>

definition trigger_changed :: "lead \<Rightarrow> lead \<Rightarrow> bool" where
  "trigger_changed prev l =
     (estimated_value l \<noteq> estimated_value prev \<or> service_type l \<noteq> service_type prev \<or>
      passenger_count l \<noteq> passenger_count prev \<or> distance_from_base l \<noteq> distance_from_base prev)"

text \<open>
  The condition under which \<open>beforeUpdate\<close> computes the score again: a watched
  attribute has another value, or a DECIMAL attribute read from the database was set to
  a number.
\<close>

definition watched_changed :: "bool \<Rightarrow> assign list \<Rightarrow> lead \<Rightarrow> bool" where
  "watched_changed from_db vals l =
     (trigger_changed l (foldl set_attr l vals)
      \<or> (from_db \<and> (list_ex sets_estimated_value_number vals
                     \<or> list_ex sets_distance_number vals)))"

fun sets_priority_or_score :: "assign \<Rightarrow> bool" where
  "sets_priority_or_score (Set_priority_level v) = True"
| "sets_priority_or_score (Set_lead_score v) = True"
| "sets_priority_or_score _ = False"

text \<open>The lead of the scoring scenario, as it is handed to \<open>Lead.create\<close>.\<close>

definition scenario_lead :: lead where
  "scenario_lead =
     \<lparr>lead_id = 0, company_name = Val ''Acme Corp'', email = Val ''ops@acme.example'',
      phone = Null, website = Null, service_type = ''corporate'', service_date = None,
      pickup_location = Null, destination = Null, passenger_count = Val 6,
      estimated_value = Val 1500, budget_tier = Null, company_size_estimate = Undefined,
      lead_score = 0, status = ''new'', priority_level = 3, distance_from_base = Val 10,
      converted_at = None, created_at = 0\<rparr>"


text \<open>
  The factors of \<open>createDefaultFactors\<close>. \<open>Object.entries\<close> lists the integer key
  \<open>1\<close> of the group size mapping before its other keys.
\<close>

definition defaultFactors :: "scoring_factor list" where
  "defaultFactors =
     [\<lparr>factor_name = ''company_name_present'', factor_category = ''company'', weight = 10,
       calculation_method = ''exact_match'',
       value_mappings = Json_object [(''present'', Int_points 10), (''absent'', Int_points 0)],
       factor_active = True\<rparr>,
      \<lparr>factor_name = ''estimated_value_tier'', factor_category = ''service'', weight = 30,
       calculation_method = ''range'',
       value_mappings = Json_object [(''1000+'', Int_points 30), (''500-999'', Int_points 20),
                                     (''100-499'', Int_points 10), (''0-99'', Int_points 5)],
       factor_active = True\<rparr>,
      \<lparr>factor_name = ''service_type_priority'', factor_category = ''service'', weight = 25,
       calculation_method = ''exact_match'',
       value_mappings = Json_object [(''corporate'', Int_points 25), (''airport'', Int_points 20),
                                     (''events'', Int_points 15), (''wedding'', Int_points 15),
                                     (''hourly'', Int_points 10)],
       factor_active = True\<rparr>,
      \<lparr>factor_name = ''geographic_proximity'', factor_category = ''geographic'', weight = 15,
       calculation_method = ''range'',
       value_mappings = Json_object [(''0-25'', Int_points 15), (''26-50'', Int_points 10),
                                     (''51-100'', Int_points 5), (''100+'', Int_points 0)],
       factor_active = True\<rparr>,
      \<lparr>factor_name = ''group_size_factor'', factor_category = ''service'', weight = 15,
       calculation_method = ''range'',
       value_mappings = Json_object [(''1'', Int_points 0), (''8+'', Int_points 15),
                                     (''4-7'', Int_points 10), (''2-3'', Int_points 5)],
       factor_active = True\<rparr>,
      \<lparr>factor_name = ''timing_urgency'', factor_category = ''timing'', weight = 5,
       calculation_method = ''calculation'',
       value_mappings = Json_object [(''same_day'', Int_points 5), (''next_day'', Int_points 3),
                                     (''future'', Int_points 1)],
       factor_active = True\<rparr>]"



text \<open>
  The sequence that \<open>createStandardSequence\<close> makes at time 0 for the scenario lead, and
  the same sequence after three advances, at the times 1000, 2000 and 3000.
\<close>

definition fresh_sequence :: email_sequence where
  "fresh_sequence =
     \<lparr>seq_lead_id = 0, sequence_name = ''corporate_nurture'', current_step = 1,
      total_steps = 4, started_at = 0, next_send_at = Some 0, completed_at = None,
      active = True, paused_reason = None, emails_sent = 0, emails_opened = 0,
      responses_received = 0\<rparr>"

definition final_sequence :: email_sequence where
  "final_sequence =
     fresh_sequence\<lparr>current_step := 4, next_send_at := Some (3000 + 30 * 24 * 60 * 60 * 1000)\<rparr>"

text \<open>Validators that accept every sequence.\<close>

definition accept_sequence :: "email_sequence \<Rightarrow> bool" where
  "accept_sequence s = True"

text \<open>Two sequences of the scenario lead, inserted at the times 1 and 2.\<close>

definition two_active_sequences :: "email_sequence list" where
  "two_active_sequences =
     [\<lparr>seq_lead_id = 0, sequence_name = ''corporate_nurture'', current_step = 1,
       total_steps = 4, started_at = 1, next_send_at = Some 1, completed_at = None,
       active = True, paused_reason = None, emails_sent = 0, emails_opened = 0,
       responses_received = 0\<rparr>,
      \<lparr>seq_lead_id = 0, sequence_name = ''corporate_nurture'', current_step = 1,
       total_steps = 4, started_at = 2, next_send_at = Some 2, completed_at = None,
       active = True, paused_reason = None, emails_sent = 0, emails_opened = 0,
       responses_received = 0\<rparr>]"

text \<open>A form submission for the scenario, an empty store, and validators that accept.\<close>

definition scenario_body :: form_body where
  "scenario_body =
     \<lparr>body_company_name = Val ''Acme Corp'', body_email = ''ops@acme.example'',
      body_phone = Undefined, body_website = Undefined, body_service_type = ''corporate'',
      body_service_date = None, body_pickup_location = Undefined,
      body_destination = Undefined, body_passenger_count = Val 6,
      body_estimated_value = Val 1500, body_budget_tier = Undefined\<rparr>"

definition empty_intake :: intake_state where
  "empty_intake = \<lparr>leads = [], webhook_logs = [], queued = []\<rparr>"

definition accept_all :: "lead \<Rightarrow> bool" where
  "accept_all l = True"

text \<open>Friday the 2nd of January 1970, 21:30.\<close>

definition friday_21h30 :: int where
  "friday_21h30 = 86400000 + 21 * 3600000 + 30 * 60000"


section \<open>Lead scores and priorities\<close>

lemma updatePriority_spec: "priority_level (updatePriority l) = spec_priority (lead_score l)"
  by (simp add: updatePriority_def spec_priority_def)

lemma updatePriority_score: "lead_score (updatePriority l) = lead_score l"
  by (simp add: updatePriority_def)

lemma updatePriority_keeps:
  "email (updatePriority l) = email l \<and> created_at (updatePriority l) = created_at l
   \<and> lead_id (updatePriority l) = lead_id l \<and> status (updatePriority l) = status l"
  by (simp add: updatePriority_def)

lemma beforeCreate_keeps:
  "email (beforeCreate l) = email l \<and> created_at (beforeCreate l) = created_at l
   \<and> lead_id (beforeCreate l) = lead_id l"
  by (simp add: beforeCreate_def updatePriority_keeps)






lemma score_of_scenario:
  assumes "company_name l = Val c" "c \<noteq> []" "estimated_value l = Val 1500"
    "service_type l = ''corporate''" "passenger_count l = Val 6" "distance_from_base l = Val 10"
  shows "Lead_calculateScore l = 90"
  using assms
  by (simp add: Lead_calculateScore_def company_name_present_def value_points_def
      proximity_points_def group_points_def js_ge_def js_le_def js_gt_def lookup_or_0_def
      serviceTypeScores_def)

lemma scenario_lead_created:
  "lead_score (beforeCreate scenario_lead) = 90 \<and> priority_level (beforeCreate scenario_lead) = 5"
proof -
  have "Lead_calculateScore scenario_lead = 90"
    by (rule score_of_scenario[where c = "''Acme Corp''"]) (simp_all add: scenario_lead_def)
  then show ?thesis
    by (simp add: beforeCreate_def updatePriority_score updatePriority_spec spec_priority_def)
qed

subsection \<open>The configurable factors\<close>







lemma natural_points_filter: "natural_points fs \<Longrightarrow> natural_points (filter P fs)"
  by (simp add: natural_points_def list_all_iff)






text \<open>The default factors give the scenario lead 10 + 30 + 25 + 15 + 10 + 1 = 91.\<close>

lemma default_factors_scenario:
  "calculateLeadScore decimal_builtins 0 defaultFactors scenario_lead = Some 91"
  by (simp add: calculateLeadScore_def findActive_def defaultFactors_def scenario_lead_def
      ScoringFactor_calculateScore_def calculateExactMatch_def calculateRange_def
      calculateDynamic_def mapped_or_0_def company_name_present_def add_score_def
      range_points_def num_or_def valueInRange_def decimal_builtins_def parseInt_decimal_def
      Number_decimal_def split_sign_def trim_def is_blank_def is_digit_def digits_value_def
      remove_first_plus_def split_min_def split_max_def js_ge_def js_le_def js_strict_eq_def
      plain_key_def object_prototype_lengths_def)

subsection \<open>Priority\<close>

lemma beforeUpdate_score:
  "lead_score (Lead_update now from_db vals l) =
     (if watched_changed from_db vals l then Lead_calculateScore (foldl set_attr l vals)
      else lead_score (foldl set_attr l vals))"
  by (auto simp add: Lead_update_def beforeUpdate_def changed_def watched_changed_def
      trigger_changed_def Let_def updatePriority_score)

lemma beforeUpdate_priority:
  "priority_level (Lead_update now from_db vals l) =
     (if watched_changed from_db vals l
      then spec_priority (Lead_calculateScore (foldl set_attr l vals))
      else priority_level (foldl set_attr l vals))"
  by (auto simp add: Lead_update_def beforeUpdate_def changed_def watched_changed_def
      trigger_changed_def Let_def updatePriority_spec)

lemma set_attr_keeps:
  "\<not> sets_priority_or_score a \<Longrightarrow>
     lead_score (set_attr l a) = lead_score l \<and> priority_level (set_attr l a) = priority_level l"
  by (cases a) simp_all

lemma foldl_set_attr_keeps:
  "\<forall>a\<in>set vals. \<not> sets_priority_or_score a \<Longrightarrow>
     lead_score (foldl set_attr l vals) = lead_score l
     \<and> priority_level (foldl set_attr l vals) = priority_level l"
  by (induction vals arbitrary: l) (simp_all add: set_attr_keeps)

text \<open>
  Claim C7, as the code has it. After every create, and after every update that changes
  one of the four attributes that \<open>beforeUpdate\<close> watches, the priority is the threshold
  table applied to the stored score. Any other update leaves score and priority as the
  update sets them, so they stay consistent when the update assigns neither of them.
\<close>

theorem priority_follows_score:
  "priority_consistent (beforeCreate l)
   \<and> (watched_changed from_db vals l \<longrightarrow> priority_consistent (Lead_update now from_db vals l))
   \<and> (trigger_changed l (foldl set_attr l vals) \<longrightarrow>
        priority_consistent (Lead_update now from_db vals l))
   \<and> ((\<forall>a\<in>set vals. \<not> sets_priority_or_score a) \<and> priority_consistent l
        \<longrightarrow> priority_consistent (Lead_update now from_db vals l))"
proof (intro conjI impI)
  show "priority_consistent (beforeCreate l)"
    by (simp add: priority_consistent_def beforeCreate_def updatePriority_spec updatePriority_score)
next
  assume "watched_changed from_db vals l"
  then show "priority_consistent (Lead_update now from_db vals l)"
    by (simp add: priority_consistent_def beforeUpdate_score beforeUpdate_priority)
next
  assume "trigger_changed l (foldl set_attr l vals)"
  then have "watched_changed from_db vals l" by (simp add: watched_changed_def)
  then show "priority_consistent (Lead_update now from_db vals l)"
    by (simp add: priority_consistent_def beforeUpdate_score beforeUpdate_priority)
next
  assume a: "(\<forall>a\<in>set vals. \<not> sets_priority_or_score a) \<and> priority_consistent l"
  then have k: "lead_score (foldl set_attr l vals) = lead_score l"
    "priority_level (foldl set_attr l vals) = priority_level l"
    using foldl_set_attr_keeps[of vals l] by simp_all
  show "priority_consistent (Lead_update now from_db vals l)"
    using a k
    by (simp add: priority_consistent_def beforeUpdate_score beforeUpdate_priority)
qed

theorem priority_follows_score_witness:
  "trigger_changed (beforeCreate scenario_lead)
      (foldl set_attr (beforeCreate scenario_lead) [Set_estimated_value (Val 200)])
   \<and> \<not> sets_priority_or_score (Set_estimated_value (Val 200))
   \<and> priority_consistent (beforeCreate scenario_lead)
   \<and> priority_consistent
        (Lead_update 0 True [Set_estimated_value (Val 200)] (beforeCreate scenario_lead))"
proof -
  have h1: "trigger_changed (beforeCreate scenario_lead)
      (foldl set_attr (beforeCreate scenario_lead) [Set_estimated_value (Val 200)])"
    by (simp add: trigger_changed_def beforeCreate_def updatePriority_def scenario_lead_def)
  have h2: "\<forall>a\<in>set [Set_estimated_value (Val 200)]. \<not> sets_priority_or_score a"
    by simp
  have h3: "\<not> sets_priority_or_score (Set_estimated_value (Val 200))"
    by simp
  have c: "priority_consistent (beforeCreate scenario_lead)"
    using priority_follows_score[of scenario_lead True "[Set_estimated_value (Val 200)]" 0]
    by blast
  have "priority_consistent
          (Lead_update 0 True [Set_estimated_value (Val 200)] (beforeCreate scenario_lead))"
    using h1 h2 c
      priority_follows_score[of "beforeCreate scenario_lead" True
        "[Set_estimated_value (Val 200)]" 0]
    by blast
  with h1 h3 c show ?thesis by blast
qed

text \<open>
  Claim C7 as stated fails: the update route accepts \<open>priority_level\<close>, and an update
  that sets only the priority to 1 leaves the score at 90, for which the table gives 5.
\<close>

theorem priority_override_inconsistent:
  "lead_score (Lead_update 0 True [Set_priority_level 1] (beforeCreate scenario_lead)) = 90
   \<and> priority_level (Lead_update 0 True [Set_priority_level 1] (beforeCreate scenario_lead)) = 1
   \<and> spec_priority 90 = 5"
  using scenario_lead_created
  by (simp add: beforeUpdate_score beforeUpdate_priority watched_changed_def trigger_changed_def
      spec_priority_def)

text \<open>
  Claim C8. A lead with a company name, an estimated value of 1500, service type
  corporate, 6 passengers and 10 miles from the base scores 10 + 30 + 25 + 15 + 10 = 90,
  and the create hook stores priority 5 with it.
\<close>

theorem scenario_scores_90:
  assumes "company_name l = Val c" "c \<noteq> []" "estimated_value l = Val 1500"
    "service_type l = ''corporate''" "passenger_count l = Val 6" "distance_from_base l = Val 10"
  shows "Lead_calculateScore l = 10 + 30 + 25 + 15 + 10 \<and> Lead_calculateScore l = 90
         \<and> lead_score (beforeCreate l) = 90 \<and> priority_level (beforeCreate l) = 5"
proof -
  have s: "Lead_calculateScore l = 90" using assms by (rule score_of_scenario)
  have "lead_score (beforeCreate l) = 90"
    by (simp add: beforeCreate_def updatePriority_score s)
  moreover have "priority_level (beforeCreate l) = 5"
    by (simp add: beforeCreate_def updatePriority_spec s spec_priority_def)
  ultimately show ?thesis using s by simp
qed

theorem scenario_scores_90_witness:
  "Lead_calculateScore scenario_lead = 90 \<and> lead_score (beforeCreate scenario_lead) = 90
   \<and> priority_level (beforeCreate scenario_lead) = 5"
  using scenario_scores_90[of scenario_lead "''Acme Corp''"]
  by (simp add: scenario_lead_def)

subsection \<open>Updates that leave the score alone\<close>






section \<open>Email sequences\<close>

lemma calculateNextSendTime_keeps:
  "current_step (calculateNextSendTime now s) = current_step s
   \<and> total_steps (calculateNextSendTime now s) = total_steps s
   \<and> sequence_name (calculateNextSendTime now s) = sequence_name s
   \<and> seq_lead_id (calculateNextSendTime now s) = seq_lead_id s
   \<and> active (calculateNextSendTime now s) = active s
   \<and> paused_reason (calculateNextSendTime now s) = paused_reason s
   \<and> completed_at (calculateNextSendTime now s) = completed_at s"
  by (simp add: calculateNextSendTime_def Let_def split: timing.splits option.splits)

lemma standard_timing:
  "name \<in> fst ` set sequences \<Longrightarrow> \<exists>t. timingMinutes name = Delay_table t \<and> length t = 4"
  by (auto simp add: timingMinutes_def sequences_def)

lemma calculateNextSendTime_standard:
  assumes "timingMinutes (sequence_name s) = Delay_table t" "length t = 4" "current_step s \<le> 4"
  shows "calculateNextSendTime now s
           = s\<lparr>next_send_at := Some (now + delay_at t (current_step s) * 60 * 1000)\<rparr>"
  using assms by (simp add: calculateNextSendTime_def Let_def)

lemma createStandardSequence_row:
  "createStandardSequence valid now k ty tbl = Inr tbl' \<Longrightarrow>
     \<exists>steps. config_total_steps ty = Some steps
       \<and> tbl' = tbl @ [calculateNextSendTime now (new_sequence now k ty steps)]"
  by (auto simp add: createStandardSequence_def split: option.splits if_splits)

lemma caller_types:
  "instant_sequence_type l \<in> fst ` set sequences \<and> trigger_sequence_type l \<in> fst ` set sequences
   \<and> config_total_steps (instant_sequence_type l) = Some 4
   \<and> config_total_steps (trigger_sequence_type l) = Some 4"
  by (simp add: instant_sequence_type_def trigger_sequence_type_def sequences_def
      config_total_steps_def sequenceConfig_def)

text \<open>
  Every row that the code makes has one of the four names and four steps, and its
  current step is within them.
\<close>

lemma sequence_row_standard:
  "sequence_row s \<Longrightarrow>
     sequence_name s \<in> fst ` set sequences \<and> total_steps s = 4 \<and> current_step s \<le> total_steps s"
proof (induction rule: sequence_row.induct)
  case (row_instant valid now l tbl tbl')
  from createStandardSequence_row[OF row_instant] caller_types[of l]
  show ?case by (auto simp add: calculateNextSendTime_keeps new_sequence_def)
next
  case (row_trigger valid now l tbl tbl')
  from createStandardSequence_row[OF row_trigger] caller_types[of l]
  show ?case by (auto simp add: calculateNextSendTime_keeps new_sequence_def)
next
  case (row_advance s now)
  then show ?case by (simp add: advance_def calculateNextSendTime_keeps complete_def)
next
  case (row_complete s now)
  then show ?case by (simp add: complete_def)
next
  case (row_pause s reason)
  then show ?case by (simp add: pause_def)
next
  case (row_resume s now)
  then show ?case by (simp add: resume_def calculateNextSendTime_keeps)
next
  case (row_sent s)
  then show ?case by (simp add: recordEmailSent_def)
next
  case (row_opened s)
  then show ?case by (simp add: recordEmailOpened_def)
next
  case (row_response s now)
  then show ?case by (simp add: recordResponse_def complete_def)
next
  case (row_stop s now)
  then show ?case by simp
qed

lemma advance_recomputes:
  assumes "sequence_row s" "current_step s < total_steps s"
  shows "\<exists>t. timingMinutes (sequence_name s) = Delay_table t
           \<and> next_send_at (advance now s)
               = Some (now + delay_at t (current_step s + 1) * 60 * 1000)"
proof -
  from sequence_row_standard[OF assms(1)]
  have n: "sequence_name s \<in> fst ` set sequences" and t4: "total_steps s = 4" by simp_all
  from standard_timing[OF n] obtain t
    where t: "timingMinutes (sequence_name s) = Delay_table t" "length t = 4" by blast
  from assms(2) t4 have "current_step (s\<lparr>current_step := current_step s + 1\<rparr>) \<le> 4" by simp
  with t have "calculateNextSendTime now (s\<lparr>current_step := current_step s + 1\<rparr>)
      = (s\<lparr>current_step := current_step s + 1\<rparr>)
          \<lparr>next_send_at := Some (now + delay_at t (current_step s + 1) * 60 * 1000)\<rparr>"
    by (simp add: calculateNextSendTime_standard)
  with assms(2) t show ?thesis by (simp add: advance_def)
qed

text \<open>
  Claim C4. \<open>advance\<close> keeps \<open>current_step\<close> within \<open>total_steps\<close>. Below the last
  step it adds exactly 1 to the step; at the last step it completes the sequence: the
  step stays, \<open>active\<close> is cleared, \<open>completed_at\<close> is set, \<open>next_send_at\<close> is cleared.
  In every row that the code makes the step is within the total, and an advance below
  the last step sets the next send time to the delay of the new step after now.
\<close>

theorem advance_steps:
  "(current_step s \<le> total_steps s \<longrightarrow>
      current_step (advance now s) \<le> total_steps (advance now s))
   \<and> (current_step s < total_steps s \<longrightarrow>
        current_step (advance now s) = current_step s + 1
        \<and> total_steps (advance now s) = total_steps s)
   \<and> (current_step s = total_steps s \<longrightarrow>
        current_step (advance now s) = total_steps s
        \<and> total_steps (advance now s) = total_steps s
        \<and> \<not> active (advance now s)
        \<and> completed_at (advance now s) = Some now
        \<and> next_send_at (advance now s) = None)
   \<and> (sequence_row s \<longrightarrow>
        current_step s \<le> total_steps s
        \<and> current_step (advance now s) \<le> total_steps (advance now s)
        \<and> (current_step s < total_steps s \<longrightarrow>
             (\<exists>t. timingMinutes (sequence_name s) = Delay_table t
                \<and> next_send_at (advance now s)
                    = Some (now + delay_at t (current_step s + 1) * 60 * 1000))))"
proof (intro conjI impI)
  assume r: "sequence_row s"
  from sequence_row_standard[OF r] show "current_step s \<le> total_steps s" by simp
  from sequence_row_standard[OF sequence_row.row_advance[OF r, of now]]
  show "current_step (advance now s) \<le> total_steps (advance now s)" by simp
  assume "current_step s < total_steps s"
  with r show "\<exists>t. timingMinutes (sequence_name s) = Delay_table t
                \<and> next_send_at (advance now s)
                    = Some (now + delay_at t (current_step s + 1) * 60 * 1000)"
    by (rule advance_recomputes)
qed (simp_all add: advance_def complete_def calculateNextSendTime_keeps)

lemma fresh_sequence_created:
  "createStandardSequence accept_sequence 0 (lead_id scenario_lead)
      (instant_sequence_type scenario_lead) [] = Inr [fresh_sequence]"
  by (simp add: createStandardSequence_def instant_sequence_type_def scenario_lead_def
      config_total_steps_def sequenceConfig_def accept_sequence_def new_sequence_def
      calculateNextSendTime_def timingMinutes_def sequences_def delay_at_def fresh_sequence_def)

lemma fresh_sequence_row: "sequence_row fresh_sequence"
  using sequence_row.row_instant[OF fresh_sequence_created] by simp

lemma fresh_sequence_timing:
  "timingMinutes (sequence_name fresh_sequence) = Delay_table [0, 24 * 60, 7 * 24 * 60, 30 * 24 * 60]"
  by (simp add: fresh_sequence_def timingMinutes_def sequences_def)

lemma final_sequence_advanced:
  "final_sequence = advance 3000 (advance 2000 (advance 1000 fresh_sequence))"
  by (simp add: final_sequence_def fresh_sequence_def advance_def calculateNextSendTime_def
      timingMinutes_def sequences_def delay_at_def)

lemma final_sequence_row: "sequence_row final_sequence"
  unfolding final_sequence_advanced
  by (intro sequence_row.row_advance fresh_sequence_row)

theorem advance_steps_witness:
  "sequence_row fresh_sequence \<and> sequence_row final_sequence
   \<and> current_step fresh_sequence < total_steps fresh_sequence
   \<and> current_step (advance 5000 fresh_sequence) = 2
   \<and> next_send_at (advance 5000 fresh_sequence) = Some (5000 + 24 * 60 * 60 * 1000)
   \<and> current_step final_sequence = total_steps final_sequence
   \<and> current_step (advance 5000 final_sequence) = 4
   \<and> \<not> active (advance 5000 final_sequence)
   \<and> completed_at (advance 5000 final_sequence) = Some 5000
   \<and> next_send_at (advance 5000 final_sequence) = None"
proof -
  have h1: "current_step fresh_sequence < total_steps fresh_sequence"
    "current_step fresh_sequence = 1"
    by (simp_all add: fresh_sequence_def)
  have h2: "current_step final_sequence = total_steps final_sequence" "total_steps final_sequence = 4"
    by (simp_all add: final_sequence_def fresh_sequence_def)
  from advance_steps[of fresh_sequence 5000] h1 fresh_sequence_row
  obtain t where t: "timingMinutes (sequence_name fresh_sequence) = Delay_table t"
    "next_send_at (advance 5000 fresh_sequence) = Some (5000 + delay_at t (1 + 1) * 60 * 1000)"
    and s: "current_step (advance 5000 fresh_sequence) = 1 + 1"
    by auto
  from t(1) fresh_sequence_timing have "t = [0, 24 * 60, 7 * 24 * 60, 30 * 24 * 60]" by simp
  with t(2)
  have n: "next_send_at (advance 5000 fresh_sequence) = Some (5000 + 24 * 60 * 60 * 1000)"
    by (simp add: delay_at_def)
  from advance_steps[of final_sequence 5000] h2
  have f: "current_step (advance 5000 final_sequence) = 4" "\<not> active (advance 5000 final_sequence)"
    "completed_at (advance 5000 final_sequence) = Some 5000"
    "next_send_at (advance 5000 final_sequence) = None"
    by simp_all
  show ?thesis
    using fresh_sequence_row final_sequence_row h1 h2 s n f by simp
qed

subsection \<open>One active sequence for a lead\<close>

lemma calculateNextSendTime_active:
  "active_for_lead k (calculateNextSendTime now s) = active_for_lead k s"
  by (simp add: active_for_lead_def calculateNextSendTime_keeps)

lemma count_active_create:
  "createStandardSequence valid now leadId ty tbl = Inr tbl' \<Longrightarrow>
     count_active k tbl' = count_active k tbl + (if k = leadId then 1 else 0)"
  by (auto simp add: count_active_def calculateNextSendTime_active dest!: createStandardSequence_row)
     (simp_all add: active_for_lead_def new_sequence_def)

lemma count_active_update:
  "i < length tbl \<Longrightarrow> (active_for_lead k y \<longrightarrow> active_for_lead k (tbl ! i)) \<Longrightarrow>
     count_active k (tbl[i := y]) \<le> count_active k tbl"
  unfolding count_active_def
proof (induction tbl arbitrary: i)
  case Nil
  then show ?case by simp
next
  case (Cons x xs)
  show ?case
  proof (cases i)
    case 0
    with Cons.prems show ?thesis by simp
  next
    case (Suc j)
    with Cons.prems Cons.IH[of j] show ?thesis by simp
  qed
qed

lemma find_index_Some:
  "find_index P xs = Some i \<Longrightarrow> i < length xs \<and> P (xs ! i)"
  by (induction xs arbitrary: i) (auto split: if_splits)

lemma find_index_None:
  "find_index P xs = None \<longleftrightarrow> filter P xs = []"
  by (induction xs) auto

lemma instant_table:
  "fst (processInstantResponse valid now found tf ok tbl) = tbl
   \<or> (\<exists>l tbl'. found = Some l \<and> count_active (lead_id l) tbl = 0
         \<and> createStandardSequence valid now (lead_id l) (instant_sequence_type l) tbl = Inr tbl'
         \<and> fst (processInstantResponse valid now found tf ok tbl) = tbl')"
  by (auto simp add: processInstantResponse_def Let_def count_active_def
      split: option.splits sum.splits)

lemma count_active_instant:
  assumes "count_active k tbl \<le> 1"
  shows "count_active k (fst (processInstantResponse valid now found tf ok tbl)) \<le> 1"
  using instant_table[of valid now found tf ok tbl] assms
  by (auto simp add: count_active_create)

lemma resume_active: "active_for_lead k (resume now s) = (seq_lead_id s = k)"
  by (simp add: resume_def calculateNextSendTime_active) (simp add: active_for_lead_def)

lemma count_active_trigger:
  assumes le: "count_active k tbl \<le> 1"
  shows "count_active k (fst (trigger_follow_up_sequence valid now l tbl)) \<le> 1"
proof (cases "find_index (active_for_lead (lead_id l)) tbl")
  case None
  then have z: "count_active (lead_id l) tbl = 0"
    by (simp add: find_index_None count_active_def)
  show ?thesis
  proof (cases "createStandardSequence valid now (lead_id l) (trigger_sequence_type l) tbl")
    case (Inl e)
    with None le show ?thesis by (simp add: trigger_follow_up_sequence_def)
  next
    case (Inr tbl')
    from count_active_create[OF Inr, of k] z le None Inr show ?thesis
      by (auto simp add: trigger_follow_up_sequence_def)
  qed
next
  case (Some i)
  from find_index_Some[OF Some] have i: "i < length tbl"
    and a: "active_for_lead (lead_id l) (tbl ! i)" by simp_all
  have "active_for_lead k (resume now (tbl ! i)) \<longrightarrow> active_for_lead k (tbl ! i)"
  proof
    assume "active_for_lead k (resume now (tbl ! i))"
    then have "seq_lead_id (tbl ! i) = k" by (simp add: resume_active)
    with a show "active_for_lead k (tbl ! i)" by (simp add: active_for_lead_def)
  qed
  from count_active_update[OF i this] le show ?thesis
    using Some by (simp add: trigger_follow_up_sequence_def)
qed

lemma advance_active: "active_for_lead k (advance now s) \<Longrightarrow> active_for_lead k s"
  by (simp add: advance_def calculateNextSendTime_active complete_def split: if_splits)
     (simp_all add: active_for_lead_def)

lemma count_active_stop:
  "count_active k (stop_sequences now leadId tbl) \<le> count_active k tbl"
  unfolding count_active_def stop_sequences_def
  by (induction tbl) (auto simp add: active_for_lead_def)

lemma reachable_one_active: "serially_reachable valid tbl \<Longrightarrow> count_active k tbl \<le> 1"
proof (induction rule: serially_reachable.induct)
  case init
  show ?case by (simp add: count_active_def)
next
  case (instant tbl now found template_found email_ok)
  from instant.IH show ?case by (rule count_active_instant)
next
  case (trigger tbl now l)
  from trigger.IH show ?case by (rule count_active_trigger)
next
  case (do_advance tbl i now)
  have "count_active k (tbl[i := advance now (tbl ! i)]) \<le> count_active k tbl"
    using do_advance.hyps(2) by (intro count_active_update) (auto dest: advance_active)
  with do_advance.IH show ?case by simp
next
  case (do_complete tbl i now)
  have "count_active k (tbl[i := complete now (tbl ! i)]) \<le> count_active k tbl"
    using do_complete.hyps(2)
    by (intro count_active_update) (auto simp: complete_def active_for_lead_def)
  with do_complete.IH show ?case by simp
next
  case (do_pause tbl i reason)
  have "count_active k (tbl[i := pause reason (tbl ! i)]) \<le> count_active k tbl"
    using do_pause.hyps(2)
    by (intro count_active_update) (auto simp: pause_def active_for_lead_def)
  with do_pause.IH show ?case by simp
next
  case (do_sent tbl i)
  have "count_active k (tbl[i := recordEmailSent (tbl ! i)]) \<le> count_active k tbl"
    using do_sent.hyps(2)
    by (intro count_active_update) (auto simp: recordEmailSent_def active_for_lead_def)
  with do_sent.IH show ?case by simp
next
  case (do_opened tbl i)
  have "count_active k (tbl[i := recordEmailOpened (tbl ! i)]) \<le> count_active k tbl"
    using do_opened.hyps(2)
    by (intro count_active_update) (auto simp: recordEmailOpened_def active_for_lead_def)
  with do_opened.IH show ?case by simp
next
  case (do_response tbl i now)
  have "count_active k (tbl[i := recordResponse now (tbl ! i)]) \<le> count_active k tbl"
    using do_response.hyps(2)
    by (intro count_active_update) (auto simp: recordResponse_def complete_def active_for_lead_def)
  with do_response.IH show ?case by simp
next
  case (do_stop tbl now leadId)
  with count_active_stop[of k now leadId tbl] show ?case by simp
qed

lemma rows_update:
  assumes "\<forall>s\<in>set tbl. sequence_row s" "sequence_row y"
  shows "\<forall>s\<in>set (tbl[i := y]). sequence_row s"
  using assms set_update_subset_insert[of tbl i y] by auto

lemma reachable_rows: "serially_reachable valid tbl \<Longrightarrow> \<forall>s\<in>set tbl. sequence_row s"
proof (induction rule: serially_reachable.induct)
  case init
  show ?case by simp
next
  case (instant tbl now found template_found email_ok)
  from instant_table[of valid now found template_found email_ok tbl]
  show ?case
  proof
    assume "fst (processInstantResponse valid now found template_found email_ok tbl) = tbl"
    with instant.IH show ?thesis by simp
  next
    assume "\<exists>l tbl'. found = Some l \<and> count_active (lead_id l) tbl = 0
         \<and> createStandardSequence valid now (lead_id l) (instant_sequence_type l) tbl = Inr tbl'
         \<and> fst (processInstantResponse valid now found template_found email_ok tbl) = tbl'"
    then obtain l tbl' where
      c: "createStandardSequence valid now (lead_id l) (instant_sequence_type l) tbl = Inr tbl'"
      and f: "fst (processInstantResponse valid now found template_found email_ok tbl) = tbl'"
      by blast
    from createStandardSequence_row[OF c] obtain row where t: "tbl' = tbl @ [row]" by blast
    from sequence_row.row_instant[OF c] t have "sequence_row row" by simp
    with instant.IH t f show ?thesis by simp
  qed
next
  case (trigger tbl now l)
  show ?case
  proof (cases "find_index (active_for_lead (lead_id l)) tbl")
    case None
    show ?thesis
    proof (cases "createStandardSequence valid now (lead_id l) (trigger_sequence_type l) tbl")
      case (Inl e)
      with None trigger.IH show ?thesis by (simp add: trigger_follow_up_sequence_def)
    next
      case (Inr tbl')
      from createStandardSequence_row[OF Inr] obtain row where t: "tbl' = tbl @ [row]" by blast
      from sequence_row.row_trigger[OF Inr] t have "sequence_row row" by simp
      with trigger.IH t None Inr show ?thesis by (simp add: trigger_follow_up_sequence_def)
    qed
  next
    case (Some i)
    from find_index_Some[OF Some] have "tbl ! i \<in> set tbl" by simp
    with trigger.IH have "sequence_row (resume now (tbl ! i))"
      by (intro sequence_row.row_resume) simp
    from rows_update[OF trigger.IH this, of i] Some show ?thesis
      by (simp add: trigger_follow_up_sequence_def)
  qed
next
  case (do_advance tbl i now)
  then have "sequence_row (advance now (tbl ! i))" by (intro sequence_row.row_advance) simp
  from rows_update[OF do_advance.IH this] show ?case .
next
  case (do_complete tbl i now)
  then have "sequence_row (complete now (tbl ! i))" by (intro sequence_row.row_complete) simp
  from rows_update[OF do_complete.IH this] show ?case .
next
  case (do_pause tbl i reason)
  then have "sequence_row (pause reason (tbl ! i))" by (intro sequence_row.row_pause) simp
  from rows_update[OF do_pause.IH this] show ?case .
next
  case (do_sent tbl i)
  then have "sequence_row (recordEmailSent (tbl ! i))" by (intro sequence_row.row_sent) simp
  from rows_update[OF do_sent.IH this] show ?case .
next
  case (do_opened tbl i)
  then have "sequence_row (recordEmailOpened (tbl ! i))" by (intro sequence_row.row_opened) simp
  from rows_update[OF do_opened.IH this] show ?case .
next
  case (do_response tbl i now)
  then have "sequence_row (recordResponse now (tbl ! i))" by (intro sequence_row.row_response) simp
  from rows_update[OF do_response.IH this] show ?case .
next
  case (do_stop tbl now leadId)
  then show ?case by (auto simp add: stop_sequences_def intro: sequence_row.row_stop)
qed

lemma instant_creates_only_without_active:
  assumes "fst (processInstantResponse valid now found tf ok tbl) \<noteq> tbl"
  shows "\<exists>l row. found = Some l \<and> count_active (lead_id l) tbl = 0
           \<and> fst (processInstantResponse valid now found tf ok tbl) = tbl @ [row]
           \<and> active_for_lead (lead_id l) row"
proof -
  from instant_table[of valid now found tf ok tbl] assms obtain l tbl' where
    f: "found = Some l" and z: "count_active (lead_id l) tbl = 0"
    and c: "createStandardSequence valid now (lead_id l) (instant_sequence_type l) tbl = Inr tbl'"
    and t: "fst (processInstantResponse valid now found tf ok tbl) = tbl'"
    by blast
  from createStandardSequence_row[OF c] obtain steps where
    "tbl' = tbl @ [calculateNextSendTime now
                     (new_sequence now (lead_id l) (instant_sequence_type l) steps)]"
    by blast
  moreover have "active_for_lead (lead_id l)
      (calculateNextSendTime now (new_sequence now (lead_id l) (instant_sequence_type l) steps))"
    by (simp add: calculateNextSendTime_active) (simp add: active_for_lead_def new_sequence_def)
  ultimately show ?thesis using f z t by blast
qed

lemma resume_row:
  assumes "sequence_row s"
  shows "\<exists>t. timingMinutes (sequence_name s) = Delay_table t
           \<and> resume now s
               = s\<lparr>active := True, paused_reason := None,
                   next_send_at := Some (now + delay_at t (current_step s) * 60 * 1000)\<rparr>"
proof -
  from sequence_row_standard[OF assms]
  have n: "sequence_name s \<in> fst ` set sequences" and c: "current_step s \<le> 4" by simp_all
  from standard_timing[OF n] obtain t
    where t: "timingMinutes (sequence_name s) = Delay_table t" "length t = 4" by blast
  from t c have "calculateNextSendTime now (s\<lparr>active := True, paused_reason := None\<rparr>)
      = (s\<lparr>active := True, paused_reason := None\<rparr>)
          \<lparr>next_send_at := Some (now + delay_at t (current_step s) * 60 * 1000)\<rparr>"
    by (simp add: calculateNextSendTime_standard)
  with t show ?thesis by (simp add: resume_def)
qed

lemma trigger_resumes_existing:
  assumes r: "serially_reachable valid tbl" and a: "count_active (lead_id l) tbl \<noteq> 0"
  shows "\<exists>i<length tbl. \<exists>t. active_for_lead (lead_id l) (tbl ! i)
           \<and> timingMinutes (sequence_name (tbl ! i)) = Delay_table t
           \<and> trigger_follow_up_sequence valid now l tbl
               = (tbl[i := (tbl ! i)\<lparr>active := True, paused_reason := None,
                           next_send_at :=
                             Some (now + delay_at t (current_step (tbl ! i)) * 60 * 1000)\<rparr>],
                  Inr (Resumed i))"
proof -
  from a have "find_index (active_for_lead (lead_id l)) tbl \<noteq> None"
    by (simp add: find_index_None count_active_def)
  then obtain i where i: "find_index (active_for_lead (lead_id l)) tbl = Some i" by auto
  from find_index_Some[OF i] have il: "i < length tbl"
    and ia: "active_for_lead (lead_id l) (tbl ! i)" by simp_all
  from il reachable_rows[OF r] have "sequence_row (tbl ! i)" by simp
  from resume_row[OF this, of now] obtain t where
    t: "timingMinutes (sequence_name (tbl ! i)) = Delay_table t"
    and e: "resume now (tbl ! i)
               = (tbl ! i)\<lparr>active := True, paused_reason := None,
                   next_send_at := Some (now + delay_at t (current_step (tbl ! i)) * 60 * 1000)\<rparr>"
    by blast
  from i e have "trigger_follow_up_sequence valid now l tbl
               = (tbl[i := (tbl ! i)\<lparr>active := True, paused_reason := None,
                           next_send_at :=
                             Some (now + delay_at t (current_step (tbl ! i)) * 60 * 1000)\<rparr>],
                  Inr (Resumed i))"
    by (simp add: trigger_follow_up_sequence_def)
  with il ia t show ?thesis by blast
qed

text \<open>
  Claim C5, as the code has it. In every table that the code builds when the runs of its
  operations do not interleave, a lead has at most one active sequence. Instant response
  processing inserts a sequence, an active one of its lead, only for a lead that has no
  active one. The trigger of a follow-up sequence for a lead that has an active one
  inserts nothing and resumes that one: the row is active, its pause reason is cleared
  and its next send time is the delay of its current step after now.
\<close>

theorem one_active_sequence:
  assumes "serially_reachable valid tbl"
  shows "count_active k tbl \<le> 1
         \<and> (fst (processInstantResponse valid now found tf ok tbl) \<noteq> tbl \<longrightarrow>
              (\<exists>l row. found = Some l \<and> count_active (lead_id l) tbl = 0
                 \<and> fst (processInstantResponse valid now found tf ok tbl) = tbl @ [row]
                 \<and> active_for_lead (lead_id l) row))
         \<and> (count_active (lead_id l) tbl \<noteq> 0 \<longrightarrow>
              (\<exists>i<length tbl. \<exists>t. active_for_lead (lead_id l) (tbl ! i)
                 \<and> timingMinutes (sequence_name (tbl ! i)) = Delay_table t
                 \<and> trigger_follow_up_sequence valid now l tbl
                     = (tbl[i := (tbl ! i)\<lparr>active := True, paused_reason := None,
                                 next_send_at :=
                                   Some (now + delay_at t (current_step (tbl ! i)) * 60 * 1000)\<rparr>],
                        Inr (Resumed i))))"
proof (intro conjI impI)
  show "count_active k tbl \<le> 1" using assms by (rule reachable_one_active)
next
  assume "fst (processInstantResponse valid now found tf ok tbl) \<noteq> tbl"
  then show "\<exists>l row. found = Some l \<and> count_active (lead_id l) tbl = 0
                 \<and> fst (processInstantResponse valid now found tf ok tbl) = tbl @ [row]
                 \<and> active_for_lead (lead_id l) row"
    by (rule instant_creates_only_without_active)
next
  assume "count_active (lead_id l) tbl \<noteq> 0"
  with assms show "\<exists>i<length tbl. \<exists>t. active_for_lead (lead_id l) (tbl ! i)
                 \<and> timingMinutes (sequence_name (tbl ! i)) = Delay_table t
                 \<and> trigger_follow_up_sequence valid now l tbl
                     = (tbl[i := (tbl ! i)\<lparr>active := True, paused_reason := None,
                                 next_send_at :=
                                   Some (now + delay_at t (current_step (tbl ! i)) * 60 * 1000)\<rparr>],
                        Inr (Resumed i))"
    by (rule trigger_resumes_existing)
qed

lemma scenario_table:
  "fst (processInstantResponse accept_sequence 0 (Some scenario_lead) True True [])
     = [fresh_sequence]"
  using fresh_sequence_created
  by (simp add: processInstantResponse_def count_active_def)

theorem one_active_sequence_witness:
  "serially_reachable accept_sequence [fresh_sequence]
   \<and> count_active 0 [fresh_sequence] = 1
   \<and> fst (processInstantResponse accept_sequence 9 (Some scenario_lead) True True [fresh_sequence])
       = [fresh_sequence]
   \<and> trigger_follow_up_sequence accept_sequence 9 scenario_lead [fresh_sequence]
       = ([fresh_sequence\<lparr>next_send_at := Some 9\<rparr>], Inr (Resumed 0))"
proof -
  have r: "serially_reachable accept_sequence [fresh_sequence]"
    using serially_reachable.instant[OF serially_reachable.init,
        of accept_sequence 0 "Some scenario_lead" True True]
    by (simp add: scenario_table)
  have c: "count_active 0 [fresh_sequence] = 1"
    by (simp add: count_active_def active_for_lead_def fresh_sequence_def)
  have i: "lead_id scenario_lead = 0"
    by (simp add: scenario_lead_def)
  have n: "\<And>row. [fresh_sequence] \<noteq> [fresh_sequence] @ [row]" by simp
  note t = one_active_sequence[OF r, of 0 9 "Some scenario_lead" True True scenario_lead]
  from t c i n
  have a: "fst (processInstantResponse accept_sequence 9 (Some scenario_lead) True True
                  [fresh_sequence]) = [fresh_sequence]"
    by auto
  from t c i obtain ta where
    ta: "timingMinutes (sequence_name fresh_sequence) = Delay_table ta"
    and tr: "trigger_follow_up_sequence accept_sequence 9 scenario_lead [fresh_sequence]
       = ([fresh_sequence\<lparr>active := True, paused_reason := None,
             next_send_at := Some (9 + delay_at ta (current_step fresh_sequence) * 60 * 1000)\<rparr>],
          Inr (Resumed 0))"
    by auto
  from ta fresh_sequence_timing have "ta = [0, 24 * 60, 7 * 24 * 60, 30 * 24 * 60]" by simp
  then have "delay_at ta (current_step fresh_sequence) = 0"
    by (simp add: delay_at_def fresh_sequence_def)
  with tr have b: "trigger_follow_up_sequence accept_sequence 9 scenario_lead [fresh_sequence]
       = ([fresh_sequence\<lparr>next_send_at := Some 9\<rparr>], Inr (Resumed 0))"
    by (simp add: fresh_sequence_def)
  from r c a b show ?thesis by simp
qed

text \<open>
  Claim C5 as stated fails: two runs for the scenario lead that both query before either
  inserts leave the lead with two active sequences.
\<close>

theorem two_runs_two_active_sequences:
  "interleaved accept_sequence two_active_sequences []
   \<and> count_active 0 two_active_sequences = 2"
proof -
  have t: "instant_sequence_type scenario_lead = ''corporate_nurture''"
    "lead_id scenario_lead = 0"
    by (simp_all add: instant_sequence_type_def scenario_lead_def)
  have s0: "interleaved accept_sequence [] []" by (rule interleaved.start)
  have s1: "interleaved accept_sequence [] [(0, ''corporate_nurture'')]"
    using interleaved.instant_found_none[OF s0, of scenario_lead] t by simp
  have s2: "interleaved accept_sequence [] [(0, ''corporate_nurture''), (0, ''corporate_nurture'')]"
    using interleaved.instant_found_none[OF s1, of scenario_lead] t by simp
  have c1: "createStandardSequence accept_sequence 1 0 ''corporate_nurture'' []
              = Inr [hd two_active_sequences]"
    by (simp add: createStandardSequence_def config_total_steps_def sequenceConfig_def
        accept_sequence_def new_sequence_def calculateNextSendTime_def timingMinutes_def
        sequences_def delay_at_def two_active_sequences_def)
  have s3: "interleaved accept_sequence [hd two_active_sequences] [(0, ''corporate_nurture'')]"
    using interleaved.insert[OF s2, of 0 1 "[hd two_active_sequences]"] c1 by simp
  have c2: "createStandardSequence accept_sequence 2 0 ''corporate_nurture''
              [hd two_active_sequences] = Inr two_active_sequences"
    by (simp add: createStandardSequence_def config_total_steps_def sequenceConfig_def
        accept_sequence_def new_sequence_def calculateNextSendTime_def timingMinutes_def
        sequences_def delay_at_def two_active_sequences_def)
  have s4: "interleaved accept_sequence two_active_sequences []"
    using interleaved.insert[OF s3, of 0 2 two_active_sequences] c2 by simp
  have "count_active 0 two_active_sequences = 2"
    by (simp add: count_active_def active_for_lead_def two_active_sequences_def)
  with s4 show ?thesis by simp
qed

section \<open>Form submissions are idempotent\<close>

lemma find_append_last:
  "\<forall>x\<in>set xs. \<not> P x \<Longrightarrow> P y \<Longrightarrow> find P (xs @ [y]) = Some y"
  by (induction xs) simp_all

lemma created_facts:
  assumes "form_submission t1 valid b st = (st1, Lead_created i s p)"
  shows "leads st1 = leads st @ [beforeCreate (build_lead t1 (length (leads st)) b)]"
    and "i = length (leads st)"
    and "Val (body_email b) \<notin> set (map email (leads st))"
  using assms
  by (auto simp add: form_submission_def Let_def Lead_create_def beforeCreate_keeps build_lead_def
      split: option.splits if_splits)

lemma second_within_window:
  assumes first: "form_submission t1 valid b st = (st1, Lead_created i s p)"
    and key: "body_email b' = body_email b"
    and window: "t2 \<le> t1 + 24 * 60 * 60 * 1000"
  shows "form_submission t2 valid' b' st1 =
           (st1\<lparr>webhook_logs := webhook_logs st1
                   @ [markProcessed t2 i (createFromRequest ''website_form'' ''form_submission'')]\<rparr>,
            Duplicate_submission i)"
proof -
  let ?l = "beforeCreate (build_lead t1 (length (leads st)) b)"
  let ?P = "\<lambda>l. email l = Val (body_email b) \<and> created_at l \<ge> t2 - 24 * 60 * 60 * 1000"
  note f = created_facts[OF first]
  have e: "email ?l = Val (body_email b)" "created_at ?l = t1" "lead_id ?l = i"
    by (simp_all add: beforeCreate_keeps build_lead_def f(2))
  have "\<forall>x\<in>set (leads st). \<not> ?P x" using f(3) by (auto simp add: image_iff)
  moreover have "?P ?l" using e window by simp
  ultimately have "find ?P (leads st @ [?l]) = Some ?l" by (rule find_append_last)
  then have "find ?P (leads st1) = Some ?l" by (simp add: f(1))
  then show ?thesis
    using e(3) by (simp add: form_submission_def Let_def build_lead_def key)
qed

lemma second_any_time:
  assumes first: "form_submission t1 valid b st = (st1, Lead_created i s p)"
    and key: "body_email b' = body_email b"
  shows "leads (fst (form_submission t3 valid' b' st1)) = leads st1"
proof -
  let ?l = "beforeCreate (build_lead t1 (length (leads st)) b)"
  note f = created_facts[OF first]
  have "email ?l = Val (body_email b)" by (simp add: beforeCreate_keeps build_lead_def)
  then have "Val (body_email b') \<in> set (map email (leads st1))"
    by (simp add: f(1) key)
  then show ?thesis
    by (simp add: form_submission_def Let_def Lead_create_def beforeCreate_keeps build_lead_def
        split: option.splits)
qed

text \<open>The unique index at work: no submission makes two leads share an address.\<close>

lemma submissions_keep_emails_distinct:
  "distinct (map email (leads st)) \<Longrightarrow>
     distinct (map email (leads (fst (form_submission now valid b st))))"
  by (auto simp add: form_submission_def Let_def Lead_create_def split: option.splits)

text \<open>
  Claim C6. After a submission that created a lead, the lead is the last row, with the
  identifier that was answered and the address of the submission. A second submission
  with the same address within 24 hours is answered as a duplicate of that lead: the
  leads and the queued jobs are as they were, and the one log entry that the request
  adds is processed, at the time of the request, with the identifier of the existing
  lead and without error. At any later time, too, the second submission creates no
  lead, and one lead has the address.
\<close>

theorem form_submission_idempotent:
  assumes "form_submission t1 valid b st = (st1, Lead_created i s p)"
    and "body_email b' = body_email b"
  shows "lead_id (last (leads st1)) = i \<and> email (last (leads st1)) = Val (body_email b)
         \<and> (t2 \<le> t1 + 24 * 60 * 60 * 1000 \<longrightarrow>
              form_submission t2 valid' b' st1 =
                (st1\<lparr>webhook_logs := webhook_logs st1
                      @ [\<lparr>log_source = ''website_form'', event_type = ''form_submission'',
                          processed = True, processed_at = Some t2, log_lead_id = Some i,
                          error_message = None, retry_count = 0\<rparr>]\<rparr>,
                 Duplicate_submission i))
         \<and> leads (fst (form_submission t3 valid' b' st1)) = leads st1
         \<and> length (filter (\<lambda>l. email l = Val (body_email b))
                     (leads (fst (form_submission t3 valid' b' st1)))) = 1"
proof (intro conjI impI)
  note f = created_facts[OF assms(1)]
  show "lead_id (last (leads st1)) = i"
    by (simp add: f(1) f(2) beforeCreate_keeps build_lead_def)
  show "email (last (leads st1)) = Val (body_email b)"
    by (simp add: f(1) beforeCreate_keeps build_lead_def)
  show same: "leads (fst (form_submission t3 valid' b' st1)) = leads st1"
    using assms by (rule second_any_time)
  have "filter (\<lambda>l. email l = Val (body_email b)) (leads st) = []"
    using f(3) by (auto simp add: filter_empty_conv image_iff)
  then show "length (filter (\<lambda>l. email l = Val (body_email b))
                     (leads (fst (form_submission t3 valid' b' st1)))) = 1"
    by (simp add: same f(1) beforeCreate_keeps build_lead_def)
next
  assume "t2 \<le> t1 + 24 * 60 * 60 * 1000"
  with assms have "form_submission t2 valid' b' st1 =
           (st1\<lparr>webhook_logs := webhook_logs st1
                   @ [markProcessed t2 i (createFromRequest ''website_form'' ''form_submission'')]\<rparr>,
            Duplicate_submission i)"
    by (rule second_within_window)
  then show "form_submission t2 valid' b' st1 =
                (st1\<lparr>webhook_logs := webhook_logs st1
                      @ [\<lparr>log_source = ''website_form'', event_type = ''form_submission'',
                          processed = True, processed_at = Some t2, log_lead_id = Some i,
                          error_message = None, retry_count = 0\<rparr>]\<rparr>,
                 Duplicate_submission i)"
    by (simp add: markProcessed_def createFromRequest_def)
qed

lemma first_scenario_submission:
  "form_submission 0 accept_all scenario_body empty_intake =
     (\<lparr>leads = [beforeCreate (build_lead 0 0 scenario_body)],
       webhook_logs = [markProcessed 0 0 (createFromRequest ''website_form'' ''form_submission'')],
       queued = [Instant_response 0, High_value_alert 0, Integration_sync 0]\<rparr>,
      Lead_created 0 75 4)"
  apply (simp add: form_submission_def Let_def Lead_create_def accept_all_def empty_intake_def
      beforeCreate_keeps)
  apply (simp add: build_lead_def scenario_body_def beforeCreate_def updatePriority_def
      isHighValue_def Lead_calculateScore_def company_name_present_def value_points_def
      str_or_empty_def str_or_null_def num_or_null_def proximity_points_def group_points_def
      js_ge_def js_le_def js_gt_def lookup_or_0_def serviceTypeScores_def)
  done

theorem form_submission_idempotent_witness:
  "form_submission 1000 accept_all scenario_body
      (fst (form_submission 0 accept_all scenario_body empty_intake))
     = (\<lparr>leads = [beforeCreate (build_lead 0 0 scenario_body)],
         webhook_logs =
           [\<lparr>log_source = ''website_form'', event_type = ''form_submission'',
             processed = True, processed_at = Some 0, log_lead_id = Some 0,
             error_message = None, retry_count = 0\<rparr>,
            \<lparr>log_source = ''website_form'', event_type = ''form_submission'',
             processed = True, processed_at = Some 1000, log_lead_id = Some 0,
             error_message = None, retry_count = 0\<rparr>],
         queued = [Instant_response 0, High_value_alert 0, Integration_sync 0]\<rparr>,
        Duplicate_submission 0)"
proof -
  have w: "(1000::int) \<le> 0 + 24 * 60 * 60 * 1000" by simp
  from form_submission_idempotent
         [OF first_scenario_submission, of scenario_body 1000 accept_all 1000] w
  show ?thesis
    by (simp add: first_scenario_submission markProcessed_def createFromRequest_def)
qed

section \<open>Response time alerts\<close>







section \<open>The next business hour\<close>

text \<open>A run of the loop that returns has read the clock within business hours.\<close>

lemma loop_returns_after_business_reading:
  assumes "next_business_loop clk k t = Some y"
  shows "\<exists>j. isBusinessHours (clk (k + j))"
proof (rule next_business_loop.raw_induct
         [where P = "\<lambda>c n u v. \<exists>j. isBusinessHours (c (n + j))", OF _ assms])
  fix loop :: "(nat \<Rightarrow> int) \<Rightarrow> nat \<Rightarrow> int \<Rightarrow> int option"
    and c :: "nat \<Rightarrow> int" and n :: nat and u v :: int
  assume IH: "\<And>c n u v. loop c n u = Some v \<Longrightarrow> \<exists>j. isBusinessHours (c (n + j))"
    and body: "(if isBusinessHours (c n) then Some u else loop c (Suc n) (u + 3600000)) = Some v"
  show "\<exists>j. isBusinessHours (c (n + j))"
  proof (cases "isBusinessHours (c n)")
    case True
    then have "isBusinessHours (c (n + 0))" by simp
    then show ?thesis by blast
  next
    case False
    with body have "loop c (Suc n) (u + 3600000) = Some v" by simp
    then have "\<exists>j. isBusinessHours (c (Suc n + j))" by (rule IH)
    then obtain j where "isBusinessHours (c (Suc n + j))" by blast
    then have "isBusinessHours (c (n + Suc j))" by simp
    then show ?thesis by blast
  qed
qed

lemma loop_never_returns:
  "\<forall>j. \<not> isBusinessHours (clk (k + j)) \<Longrightarrow> next_business_loop clk k t = None"
  using loop_returns_after_business_reading[of clk k t]
  by (cases "next_business_loop clk k t") auto

text \<open>
  When the clock is first read within business hours at the \<open>n\<close>-th test, the loop
  returns the start value moved on by \<open>n\<close> hours, whatever that time is.
\<close>

lemma loop_returns:
  "isBusinessHours (clk (k + n)) \<Longrightarrow> \<forall>j<n. \<not> isBusinessHours (clk (k + j)) \<Longrightarrow>
     next_business_loop clk k t = Some (t + int n * 3600000)"
proof (induction n arbitrary: k t)
  case 0
  then show ?case by (subst next_business_loop.simps) simp
next
  case (Suc n)
  from Suc.prems(2) have nb: "\<not> isBusinessHours (clk k)"
    by (metis add.right_neutral zero_less_Suc)
  have "isBusinessHours (clk (Suc k + n))" using Suc.prems(1) by simp
  moreover have "\<forall>j<n. \<not> isBusinessHours (clk (Suc k + j))"
    using Suc.prems(2) by (metis Suc_less_eq add_Suc_right add_Suc)
  ultimately have "next_business_loop clk (Suc k) (t + 3600000)
                     = Some (t + 3600000 + int n * 3600000)"
    by (rule Suc.IH)
  with nb show ?case by (subst next_business_loop.simps) (simp add: algebra_simps)
qed

lemma saturday_evening_closed: "\<not> isBusinessHours saturday_21h"
  by (simp add: isBusinessHours_def saturday_21h_def getHours_def getDay_def)

text \<open>
  Claim C10 against the code. Called on a Saturday at 21:00, with a clock that stays
  outside business hours, \<open>getNextBusinessHour\<close> never returns, and neither does the
  reschedule path of the follow-up processor. Called on a Friday at 21:30 it returns
  22:00, which is outside business hours.
\<close>

theorem next_business_hour_diverges:
  "getNextBusinessHour (frozen_clock saturday_21h) = None
   \<and> follow_up_business_hours (frozen_clock saturday_21h) = None
   \<and> getNextBusinessHour (frozen_clock friday_21h30) = Some (friday_21h30 + 30 * 60000)
   \<and> \<not> isBusinessHours (friday_21h30 + 30 * 60000)"
proof (intro conjI)
  have n: "\<And>k t. next_business_loop (frozen_clock saturday_21h) k t = None"
    by (rule loop_never_returns) (simp add: frozen_clock_def saturday_evening_closed)
  show "getNextBusinessHour (frozen_clock saturday_21h) = None"
    by (simp add: getNextBusinessHour_def n)
  have "(\<lambda>k. frozen_clock saturday_21h (Suc k)) = frozen_clock saturday_21h"
    by (simp add: frozen_clock_def fun_eq_iff)
  then show "follow_up_business_hours (frozen_clock saturday_21h) = None"
    by (simp add: follow_up_business_hours_def getNextBusinessHour_def n frozen_clock_def
        saturday_evening_closed)
  have b: "isBusinessHours (frozen_clock friday_21h30 (1 + 0))"
    by (simp add: frozen_clock_def isBusinessHours_def friday_21h30_def getHours_def getDay_def)
  from loop_returns[of "frozen_clock friday_21h30" 1 0 "start_of_next_hour friday_21h30"] b
  show "getNextBusinessHour (frozen_clock friday_21h30) = Some (friday_21h30 + 30 * 60000)"
    by (simp add: getNextBusinessHour_def frozen_clock_def start_of_next_hour_def friday_21h30_def)
  show "\<not> isBusinessHours (friday_21h30 + 30 * 60000)"
    by (simp add: isBusinessHours_def friday_21h30_def getHours_def getDay_def)
qed


end
